theory Spec2Isabelle
  imports Complex_Main
begin

section \<open>Numbers of the source\<close>

text \<open>
  The source is TypeScript; every \<^verbatim>\<open>number\<close> is a double. The functions are
  embedded over the reals, so their theorems speak about the arithmetic the formulas
  denote: no rounding, no overflow, no NaN. Where a property turns on what doubles do
  differently, the statements concerned are embedded a second time with that written out,
  under names that end in \<open>_double\<close>. The remainder operator \<^verbatim>\<open>a % n\<close>
  truncates the quotient towards zero, so its result has the sign of the dividend; its
  result is exact in doubles too.
\<close>

definition js_trunc :: "real \<Rightarrow> int" where
  "js_trunc q = (if 0 \<le> q then \<lfloor>q\<rfloor> else - \<lfloor>- q\<rfloor>)"

definition js_rem :: "real \<Rightarrow> real \<Rightarrow> real" where
  "js_rem a n = a - n * of_int (js_trunc (a / n))"

text \<open>\<^verbatim>\<open>Math.atan2(y, x)\<close>, with \<^verbatim>\<open>atan2(0, 0) = 0\<close>.\<close>

definition atan2 :: "real \<Rightarrow> real \<Rightarrow> real" where
  "atan2 y x =
     (if 0 < x then arctan (y / x)
      else if x < 0 then (if 0 \<le> y then arctan (y / x) + pi else arctan (y / x) - pi)
      else if 0 < y then pi / 2
      else if y < 0 then - (pi / 2)
      else 0)"

subsection \<open>Rounding\<close>

text \<open>
  The result of an addition is the double nearest to the exact sum, the one with the even
  significand on a tie. A double of magnitude from \<open>2 ^ e\<close> up to \<open>2 ^ (e + 1)\<close> is a
  multiple of \<open>2 ^ (e - 52)\<close>. The limits of the exponent (overflow, subnormal numbers)
  are left out of \<open>doubleRound\<close>: the one sum it is used for lies between 0 and 360.
\<close>

definition roundTiesToEven :: "real \<Rightarrow> int" where
  "roundTiesToEven q =
     (let f = \<lfloor>q\<rfloor>; d = q - real_of_int f
      in if d < 1 / 2 then f
         else if 1 / 2 < d then f + 1
         else if even f then f else f + 1)"

definition doubleRound :: "real \<Rightarrow> real" where
  "doubleRound x =
     (if x = 0 then 0
      else (let ulp = 2 powr (real_of_int \<lfloor>log 2 \<bar>x\<bar>\<rfloor> - 52)
            in ulp * real_of_int (roundTiesToEven (x / ulp))))"

subsection \<open>Infinities and NaN\<close>

text \<open>
  A double is a finite number, one of the two infinities, or NaN. A finite result whose
  magnitude reaches \<open>2 ^ 1024 - 2 ^ 970\<close> rounds to the infinity of its sign; the
  rounding of a result that stays finite is left out here. The operations are
  \<^verbatim>\<open>*\<close>, \<^verbatim>\<open>+\<close>, \<^verbatim>\<open>Math.min\<close> and \<^verbatim>\<open>Math.max\<close>: NaN is passed on
  by all four, an infinity times zero and the sum of the two infinities are NaN.
\<close>

datatype jsnum = Finite real | PosInfinity | NegInfinity | NaN

definition overflowBound :: real where
  "overflowBound = 2 ^ 1024 - 2 ^ 970"

definition toDouble :: "real \<Rightarrow> jsnum" where
  "toDouble x =
     (if overflowBound \<le> x then PosInfinity
      else if x \<le> - overflowBound then NegInfinity
      else Finite x)"

fun jsMul :: "jsnum \<Rightarrow> jsnum \<Rightarrow> jsnum" where
  "jsMul NaN y = NaN"
| "jsMul x NaN = NaN"
| "jsMul (Finite a) (Finite b) = toDouble (a * b)"
| "jsMul (Finite a) PosInfinity =
     (if a = 0 then NaN else if 0 < a then PosInfinity else NegInfinity)"
| "jsMul (Finite a) NegInfinity =
     (if a = 0 then NaN else if 0 < a then NegInfinity else PosInfinity)"
| "jsMul PosInfinity (Finite b) =
     (if b = 0 then NaN else if 0 < b then PosInfinity else NegInfinity)"
| "jsMul NegInfinity (Finite b) =
     (if b = 0 then NaN else if 0 < b then NegInfinity else PosInfinity)"
| "jsMul PosInfinity PosInfinity = PosInfinity"
| "jsMul PosInfinity NegInfinity = NegInfinity"
| "jsMul NegInfinity PosInfinity = NegInfinity"
| "jsMul NegInfinity NegInfinity = PosInfinity"

fun jsAdd :: "jsnum \<Rightarrow> jsnum \<Rightarrow> jsnum" where
  "jsAdd NaN y = NaN"
| "jsAdd x NaN = NaN"
| "jsAdd (Finite a) (Finite b) = toDouble (a + b)"
| "jsAdd (Finite a) PosInfinity = PosInfinity"
| "jsAdd (Finite a) NegInfinity = NegInfinity"
| "jsAdd PosInfinity (Finite b) = PosInfinity"
| "jsAdd NegInfinity (Finite b) = NegInfinity"
| "jsAdd PosInfinity PosInfinity = PosInfinity"
| "jsAdd PosInfinity NegInfinity = NaN"
| "jsAdd NegInfinity PosInfinity = NaN"
| "jsAdd NegInfinity NegInfinity = NegInfinity"

fun jsMin :: "jsnum \<Rightarrow> jsnum \<Rightarrow> jsnum" where
  "jsMin NaN y = NaN"
| "jsMin x NaN = NaN"
| "jsMin (Finite a) (Finite b) = Finite (min a b)"
| "jsMin NegInfinity y = NegInfinity"
| "jsMin x NegInfinity = NegInfinity"
| "jsMin PosInfinity y = y"
| "jsMin x PosInfinity = x"

fun jsMax :: "jsnum \<Rightarrow> jsnum \<Rightarrow> jsnum" where
  "jsMax NaN y = NaN"
| "jsMax x NaN = NaN"
| "jsMax (Finite a) (Finite b) = Finite (max a b)"
| "jsMax PosInfinity y = PosInfinity"
| "jsMax x PosInfinity = PosInfinity"
| "jsMax NegInfinity y = y"
| "jsMax x NegInfinity = x"

section \<open>ephemeris.ts\<close>

definition DEG_TO_RAD :: real where
  "DEG_TO_RAD = pi / 180"

definition RAD_TO_DEG :: real where
  "RAD_TO_DEG = 180 / pi"

definition J2000 :: real where
  "J2000 = 2451545.0"

text \<open>
  \<^verbatim>\<open>dateToJulianDay\<close> reads its \<^verbatim>\<open>Date\<close> argument only through the six UTC
  getters, so the argument is modelled as the record of what they return
  (\<^verbatim>\<open>getUTCMonth\<close> counts from 0).
\<close>

record utc_date =
  getUTCFullYear :: int
  getUTCMonth :: int
  getUTCDate :: int
  getUTCHours :: int
  getUTCMinutes :: int
  getUTCSeconds :: int

definition dateToJulianDay :: "utc_date \<Rightarrow> real" where
  "dateToJulianDay date =
     (let year = getUTCFullYear date;
          month = getUTCMonth date + 1;
          day = real_of_int (getUTCDate date)
                + real_of_int (getUTCHours date) / 24
                + real_of_int (getUTCMinutes date) / 1440
                + real_of_int (getUTCSeconds date) / 86400;
          y = (if month \<le> 2 then year - 1 else year);
          m = (if month \<le> 2 then month + 12 else month);
          A = \<lfloor>real_of_int y / 100\<rfloor>;
          B = 2 - A + \<lfloor>real_of_int A / 4\<rfloor>
      in real_of_int \<lfloor>365.25 * real_of_int (y + 4716)\<rfloor>
         + real_of_int \<lfloor>30.6001 * real_of_int (m + 1)\<rfloor>
         + day + real_of_int B - 1524.5)"

definition normalizeAngle :: "real \<Rightarrow> real" where
  "normalizeAngle angle =
     (let result = js_rem angle 360
      in if result < 0 then result + 360 else result)"

text \<open>
  \<^verbatim>\<open>normalizeAngle\<close> in double arithmetic, for an argument that is a finite double:
  the remainder is exact, the sum \<^verbatim>\<open>result += 360\<close> is rounded.
\<close>

definition normalizeAngle_double :: "real \<Rightarrow> real" where
  "normalizeAngle_double angle =
     (let result = js_rem angle 360
      in if result < 0 then doubleRound (result + 360) else result)"

definition angleDifference :: "real \<Rightarrow> real \<Rightarrow> real" where
  "angleDifference angle1 angle2 =
     (let diff = normalizeAngle angle1 - normalizeAngle angle2;
          diff1 = (if 180 < diff then diff - 360 else diff);
          diff2 = (if diff1 < - 180 then diff1 + 360 else diff1)
      in \<bar>diff2\<bar>)"

record OrbitalElements =
  el_a :: real
  el_e :: real
  el_i :: real
  el_L :: real
  el_w :: real
  el_O :: real
  el_aRate :: real
  el_eRate :: real
  el_iRate :: real
  el_LRate :: real
  el_wRate :: real
  el_ORate :: real

text \<open>
  The table \<^verbatim>\<open>ORBITAL_ELEMENTS\<close> is an object literal indexed by a string; this is
  the finite map of the keys the literal writes down. A lookup in the object also finds
  the properties every object inherits (see \<open>elementsFound\<close> below).
\<close>

definition ORBITAL_ELEMENTS :: "string \<rightharpoonup> OrbitalElements" where
  "ORBITAL_ELEMENTS = map_of
     [(''mercury'',
       \<lparr>el_a = 0.38709927, el_e = 0.20563593, el_i = 7.00497902, el_L = 252.25032350,
        el_w = 77.45779628, el_O = 48.33076593,
        el_aRate = 0.00000037, el_eRate = 0.00001906, el_iRate = - 0.00594749,
        el_LRate = 149472.67411175, el_wRate = 0.16047689, el_ORate = - 0.12534081\<rparr>),
      (''venus'',
       \<lparr>el_a = 0.72333566, el_e = 0.00677672, el_i = 3.39467605, el_L = 181.97909950,
        el_w = 131.60246718, el_O = 76.67984255,
        el_aRate = 0.00000390, el_eRate = - 0.00004107, el_iRate = - 0.00078890,
        el_LRate = 58517.81538729, el_wRate = 0.00268329, el_ORate = - 0.27769418\<rparr>),
      (''earth'',
       \<lparr>el_a = 1.00000261, el_e = 0.01671123, el_i = - 0.00001531, el_L = 100.46457166,
        el_w = 102.93768193, el_O = 0.0,
        el_aRate = 0.00000562, el_eRate = - 0.00004392, el_iRate = - 0.01294668,
        el_LRate = 35999.37244981, el_wRate = 0.32327364, el_ORate = 0.0\<rparr>),
      (''mars'',
       \<lparr>el_a = 1.52371034, el_e = 0.09339410, el_i = 1.84969142, el_L = - 4.55343205,
        el_w = - 23.94362959, el_O = 49.55953891,
        el_aRate = 0.00001847, el_eRate = 0.00007882, el_iRate = - 0.00813131,
        el_LRate = 19140.30268499, el_wRate = 0.44441088, el_ORate = - 0.29257343\<rparr>),
      (''jupiter'',
       \<lparr>el_a = 5.20288700, el_e = 0.04838624, el_i = 1.30439695, el_L = 34.39644051,
        el_w = 14.72847983, el_O = 100.47390909,
        el_aRate = - 0.00011607, el_eRate = - 0.00013253, el_iRate = - 0.00183714,
        el_LRate = 3034.74612775, el_wRate = 0.21252668, el_ORate = 0.20469106\<rparr>),
      (''saturn'',
       \<lparr>el_a = 9.53667594, el_e = 0.05386179, el_i = 2.48599187, el_L = 49.95424423,
        el_w = 92.59887831, el_O = 113.66242448,
        el_aRate = - 0.00125060, el_eRate = - 0.00050991, el_iRate = 0.00193609,
        el_LRate = 1222.49362201, el_wRate = - 0.41897216, el_ORate = - 0.28867794\<rparr>),
      (''uranus'',
       \<lparr>el_a = 19.18916464, el_e = 0.04725744, el_i = 0.77263783, el_L = 313.23810451,
        el_w = 170.95427630, el_O = 74.01692503,
        el_aRate = - 0.00196176, el_eRate = - 0.00004397, el_iRate = - 0.00242939,
        el_LRate = 428.48202785, el_wRate = 0.40805281, el_ORate = 0.04240589\<rparr>),
      (''neptune'',
       \<lparr>el_a = 30.06992276, el_e = 0.00859048, el_i = 1.77004347, el_L = - 55.12002969,
        el_w = 44.96476227, el_O = 131.78422574,
        el_aRate = 0.00026291, el_eRate = 0.00005105, el_iRate = 0.00035372,
        el_LRate = 218.45945325, el_wRate = - 0.32241464, el_ORate = - 0.00508664\<rparr>),
      (''pluto'',
       \<lparr>el_a = 39.48211675, el_e = 0.24882730, el_i = 17.14001206, el_L = 238.92903833,
        el_w = 224.06891629, el_O = 110.30393684,
        el_aRate = - 0.00031596, el_eRate = 0.00005170, el_iRate = 0.00004818,
        el_LRate = 145.20780515, el_wRate = - 0.04062942, el_ORate = - 0.01183482\<rparr>)]"

record position =
  longitude :: real
  latitude :: real
  distance :: real

record xyz =
  xyz_x :: real
  xyz_y :: real
  xyz_z :: real

text \<open>
  The Kepler loop of the source runs a fixed ten passes of
  \<^verbatim>\<open>E = M + e * Math.sin(E)\<close>, starting from \<^verbatim>\<open>E = M\<close>.
\<close>

definition kepler :: "real \<Rightarrow> real \<Rightarrow> real" where
  "kepler M e = ((\<lambda>E. M + e * sin E) ^^ 10) M"

definition calculateHeliocentricEarth :: "real \<Rightarrow> xyz" where
  "calculateHeliocentricEarth jd =
     (let T = (jd - J2000) / 36525;
          L0 = normalizeAngle (280.4664567 + 36000.76983 * T + 0.0003032 * T * T);
          M = normalizeAngle (357.5291092 + 35999.0502909 * T) * DEG_TO_RAD;
          C = (1.9146 - 0.004817 * T) * sin M
              + (0.019993 - 0.000101 * T) * sin (2 * M)
              + 0.00029 * sin (3 * M);
          sunLongitude = normalizeAngle (L0 + C);
          earthLongitude = normalizeAngle (sunLongitude + 180);
          e = 0.016708634 - 0.000042037 * T;
          v = M + C * DEG_TO_RAD;
          r = 1.000001018 * (1 - e * e) / (1 + e * cos v);
          lonRad = earthLongitude * DEG_TO_RAD
      in \<lparr>xyz_x = r * cos lonRad, xyz_y = r * sin lonRad, xyz_z = 0\<rparr>)"

definition calculateSunPosition :: "real \<Rightarrow> position" where
  "calculateSunPosition jd =
     (let T = (jd - J2000) / 36525;
          L0 = normalizeAngle (280.4664567 + 36000.76983 * T + 0.0003032 * T * T);
          M = normalizeAngle (357.5291092 + 35999.0502909 * T) * DEG_TO_RAD;
          C = (1.9146 - 0.004817 * T - 0.000014 * T * T) * sin M
              + (0.019993 - 0.000101 * T) * sin (2 * M)
              + 0.00029 * sin (3 * M);
          lon = normalizeAngle (L0 + C);
          e = 0.016708634 - 0.000042037 * T;
          v = M + C * DEG_TO_RAD;
          dist = 1.000001018 * (1 - e * e) / (1 + e * cos v)
      in \<lparr>longitude = lon, latitude = 0, distance = dist\<rparr>)"

definition calculateMoonPosition :: "real \<Rightarrow> position" where
  "calculateMoonPosition jd =
     (let T = (jd - J2000) / 36525;
          L = normalizeAngle (218.3164477 + 481267.88123421 * T);
          M = normalizeAngle (134.9633964 + 477198.8675055 * T) * DEG_TO_RAD;
          Ms = normalizeAngle (357.5291092 + 35999.0502909 * T) * DEG_TO_RAD;
          D = normalizeAngle (297.8501921 + 445267.1114034 * T) * DEG_TO_RAD;
          F = normalizeAngle (93.2720950 + 483202.0175233 * T) * DEG_TO_RAD;
          lon = L
                + 6.289 * sin M
                - 1.274 * sin (2 * D - M)
                + 0.658 * sin (2 * D)
                + 0.214 * sin (2 * M)
                - 0.186 * sin Ms
                - 0.114 * sin (2 * F);
          lat = 5.128 * sin F
                + 0.281 * sin (M + F)
                - 0.278 * sin (F - M)
                - 0.173 * sin (F - 2 * D);
          dist = 385000.56 / 6378.14
      in \<lparr>longitude = normalizeAngle lon, latitude = lat, distance = dist\<rparr>)"

definition calculateNorthNodePosition :: "real \<Rightarrow> position" where
  "calculateNorthNodePosition jd =
     (let T = (jd - J2000) / 36525;
          Om = normalizeAngle (125.0445479 - 1934.1362891 * T)
      in \<lparr>longitude = Om, latitude = 0, distance = 1\<rparr>)"

definition calculateChironPosition :: "real \<Rightarrow> position" where
  "calculateChironPosition jd =
     (let a = 13.648;
          e = 0.3814;
          i = 6.931 * DEG_TO_RAD;
          Om = 209.35 * DEG_TO_RAD;
          w = 339.55 * DEG_TO_RAD;
          n = 0.01953;
          M = normalizeAngle (78.0 + n * (jd - J2000)) * DEG_TO_RAD;
          E = kepler M e;
          xv = a * (cos E - e);
          yv = a * sqrt (1 - e * e) * sin E;
          v = atan2 yv xv;
          r = sqrt (xv * xv + yv * yv);
          lw = v + w;
          xh = r * (cos Om * cos lw - sin Om * sin lw * cos i);
          yh = r * (sin Om * cos lw + cos Om * sin lw * cos i);
          zh = r * sin lw * sin i;
          earthPos = calculateHeliocentricEarth jd;
          xg = xh - xyz_x earthPos;
          yg = yh - xyz_y earthPos;
          zg = zh - xyz_z earthPos
      in \<lparr>longitude = normalizeAngle (atan2 yg xg * RAD_TO_DEG),
          latitude = atan2 zg (sqrt (xg * xg + yg * yg)) * RAD_TO_DEG,
          distance = sqrt (xg * xg + yg * yg + zg * zg)\<rparr>)"

text \<open>The general path of \<^verbatim>\<open>calculatePlanetPosition\<close>, once the table entry is found.\<close>

definition keplerianPosition :: "OrbitalElements \<Rightarrow> real \<Rightarrow> position" where
  "keplerianPosition elements jd =
     (let T = (jd - J2000) / 36525;
          a = el_a elements + el_aRate elements * T;
          e = el_e elements + el_eRate elements * T;
          i = (el_i elements + el_iRate elements * T) * DEG_TO_RAD;
          L = normalizeAngle (el_L elements + el_LRate elements * T);
          w = normalizeAngle (el_w elements + el_wRate elements * T);
          Om = normalizeAngle (el_O elements + el_ORate elements * T);
          M = normalizeAngle (L - w) * DEG_TO_RAD;
          E = kepler M e;
          xv = a * (cos E - e);
          yv = a * sqrt (1 - e * e) * sin E;
          v = atan2 yv xv * RAD_TO_DEG;
          r = sqrt (xv * xv + yv * yv);
          u = normalizeAngle (v + w - Om) * DEG_TO_RAD;
          iRad = i;
          ORad = Om * DEG_TO_RAD;
          xh = r * (cos ORad * cos u - sin ORad * sin u * cos iRad);
          yh = r * (sin ORad * cos u + cos ORad * sin u * cos iRad);
          zh = r * sin u * sin iRad;
          earthPos = calculateHeliocentricEarth jd;
          xg = xh - xyz_x earthPos;
          yg = yh - xyz_y earthPos;
          zg = zh - xyz_z earthPos
      in \<lparr>longitude = normalizeAngle (atan2 yg xg * RAD_TO_DEG),
          latitude = atan2 zg (sqrt (xg * xg + yg * yg)) * RAD_TO_DEG,
          distance = sqrt (xg * xg + yg * yg + zg * zg)\<rparr>)"

text \<open>
  \<^verbatim>\<open>throw new Error(`Unknown planet: ${planetId}`)\<close> is the only \<^verbatim>\<open>throw\<close> of the
  engine; it is the error value \<open>UnknownBody\<close>, carrying the identifier.
  \<open>calculatePlanetPosition\<close> gives the result for the identifiers that are own keys of
  the table or no property of it at all; what the guard does on every string, the inherited
  property names among them, is \<open>calculatePlanetPosition_throws\<close> below.
\<close>

datatype error = UnknownBody string

definition calculatePlanetPosition :: "string \<Rightarrow> real \<Rightarrow> error + position" where
  "calculatePlanetPosition planetId jd =
     (if planetId = ''sun'' then Inr (calculateSunPosition jd)
      else if planetId = ''moon'' then Inr (calculateMoonPosition jd)
      else if planetId = ''northNode'' then Inr (calculateNorthNodePosition jd)
      else if planetId = ''chiron'' then Inr (calculateChironPosition jd)
      else (case ORBITAL_ELEMENTS planetId of
              None \<Rightarrow> Inl (UnknownBody planetId)
            | Some elements \<Rightarrow> Inr (keplerianPosition elements jd)))"

text \<open>
  The names of the properties that an object literal inherits from
  \<^verbatim>\<open>Object.prototype\<close>. Each of them is a function or an object, so
  \<^verbatim>\<open>ORBITAL_ELEMENTS[planetId]\<close> is truthy for an own key and for an inherited one.
\<close>

definition objectPrototypeKeys :: "string list" where
  "objectPrototypeKeys =
     [''constructor'', ''__defineGetter__'', ''__defineSetter__'', ''hasOwnProperty'',
      ''__lookupGetter__'', ''__lookupSetter__'', ''isPrototypeOf'',
      ''propertyIsEnumerable'', ''toString'', ''valueOf'', ''__proto__'',
      ''toLocaleString'']"

definition elementsFound :: "string \<Rightarrow> bool" where
  "elementsFound planetId =
     (case ORBITAL_ELEMENTS planetId of
        Some elements \<Rightarrow> True
      | None \<Rightarrow> planetId \<in> set objectPrototypeKeys)"

text \<open>
  Whether \<^verbatim>\<open>calculatePlanetPosition\<close> reaches its \<^verbatim>\<open>throw\<close>: the four early
  returns, then \<^verbatim>\<open>if (!elements)\<close>.
\<close>

definition calculatePlanetPosition_throws :: "string \<Rightarrow> bool" where
  "calculatePlanetPosition_throws planetId =
     (if planetId = ''sun'' then False
      else if planetId = ''moon'' then False
      else if planetId = ''northNode'' then False
      else if planetId = ''chiron'' then False
      else if elementsFound planetId then False
      else True)"

section \<open>constants.ts\<close>

text \<open>
  \<^verbatim>\<open>PlanetId\<close> is the union of the twelve \<^verbatim>\<open>id\<close> literals of \<^verbatim>\<open>PLANETS\<close>;
  \<open>planetIdString\<close> gives the literal of each.
\<close>

datatype PlanetId =
  Sun | Moon | Mercury | Venus | Mars | Jupiter | Saturn | Uranus | Neptune | Pluto
  | NorthNode | Chiron

fun planetIdString :: "PlanetId \<Rightarrow> string" where
  "planetIdString Sun = ''sun''"
| "planetIdString Moon = ''moon''"
| "planetIdString Mercury = ''mercury''"
| "planetIdString Venus = ''venus''"
| "planetIdString Mars = ''mars''"
| "planetIdString Jupiter = ''jupiter''"
| "planetIdString Saturn = ''saturn''"
| "planetIdString Uranus = ''uranus''"
| "planetIdString Neptune = ''neptune''"
| "planetIdString Pluto = ''pluto''"
| "planetIdString NorthNode = ''northNode''"
| "planetIdString Chiron = ''chiron''"

text \<open>The bodies of \<^verbatim>\<open>PLANETS\<close>, in the order of the table.\<close>

definition PLANETS :: "PlanetId list" where
  "PLANETS = [Sun, Moon, Mercury, Venus, Mars, Jupiter, Saturn, Uranus, Neptune, Pluto,
              NorthNode, Chiron]"

text \<open>
  \<^verbatim>\<open>PLANET_WEIGHTS\<close>. Every entry is a non-zero number, so the fallback of
  \<^verbatim>\<open>PLANET_WEIGHTS[id] || 1\<close> is written out but never taken.
\<close>

fun PLANET_WEIGHTS :: "PlanetId \<Rightarrow> real" where
  "PLANET_WEIGHTS Sun = 10"
| "PLANET_WEIGHTS Moon = 10"
| "PLANET_WEIGHTS Mercury = 6"
| "PLANET_WEIGHTS Venus = 6"
| "PLANET_WEIGHTS Mars = 6"
| "PLANET_WEIGHTS Jupiter = 8"
| "PLANET_WEIGHTS Saturn = 8"
| "PLANET_WEIGHTS Uranus = 4"
| "PLANET_WEIGHTS Neptune = 4"
| "PLANET_WEIGHTS Pluto = 4"
| "PLANET_WEIGHTS NorthNode = 3"
| "PLANET_WEIGHTS Chiron = 2"

datatype AspectId =
  Conjunction | Opposition | Trine | Square | Sextile | Quincunx | Semisextile | Semisquare
  | Sesquiquadrate | Quintile | Biquintile

fun aspectIdString :: "AspectId \<Rightarrow> string" where
  "aspectIdString Conjunction = ''conjunction''"
| "aspectIdString Opposition = ''opposition''"
| "aspectIdString Trine = ''trine''"
| "aspectIdString Square = ''square''"
| "aspectIdString Sextile = ''sextile''"
| "aspectIdString Quincunx = ''quincunx''"
| "aspectIdString Semisextile = ''semisextile''"
| "aspectIdString Semisquare = ''semisquare''"
| "aspectIdString Sesquiquadrate = ''sesquiquadrate''"
| "aspectIdString Quintile = ''quintile''"
| "aspectIdString Biquintile = ''biquintile''"

text \<open>
  An entry of \<^verbatim>\<open>ASPECTS\<close>: its id, angle, orb, nature, harmony and weight (the
  display name and glyph are left out).
\<close>

record AspectDef =
  def_id :: AspectId
  def_angle :: real
  def_orb :: real
  def_nature :: string
  def_harmony :: string
  def_weight :: real

definition ASPECTS :: "AspectDef list" where
  "ASPECTS =
     [\<lparr>def_id = Conjunction, def_angle = 0, def_orb = 10, def_nature = ''major'',
       def_harmony = ''neutral'', def_weight = 10\<rparr>,
      \<lparr>def_id = Opposition, def_angle = 180, def_orb = 10, def_nature = ''major'',
       def_harmony = ''tense'', def_weight = 10\<rparr>,
      \<lparr>def_id = Trine, def_angle = 120, def_orb = 8, def_nature = ''major'',
       def_harmony = ''harmonious'', def_weight = 8\<rparr>,
      \<lparr>def_id = Square, def_angle = 90, def_orb = 8, def_nature = ''major'',
       def_harmony = ''tense'', def_weight = 8\<rparr>,
      \<lparr>def_id = Sextile, def_angle = 60, def_orb = 6, def_nature = ''major'',
       def_harmony = ''harmonious'', def_weight = 6\<rparr>,
      \<lparr>def_id = Quincunx, def_angle = 150, def_orb = 3, def_nature = ''minor'',
       def_harmony = ''tense'', def_weight = 4\<rparr>,
      \<lparr>def_id = Semisextile, def_angle = 30, def_orb = 2, def_nature = ''minor'',
       def_harmony = ''neutral'', def_weight = 2\<rparr>,
      \<lparr>def_id = Semisquare, def_angle = 45, def_orb = 2, def_nature = ''minor'',
       def_harmony = ''tense'', def_weight = 3\<rparr>,
      \<lparr>def_id = Sesquiquadrate, def_angle = 135, def_orb = 2, def_nature = ''minor'',
       def_harmony = ''tense'', def_weight = 3\<rparr>,
      \<lparr>def_id = Quintile, def_angle = 72, def_orb = 2, def_nature = ''minor'',
       def_harmony = ''creative'', def_weight = 3\<rparr>,
      \<lparr>def_id = Biquintile, def_angle = 144, def_orb = 2, def_nature = ''minor'',
       def_harmony = ''creative'', def_weight = 3\<rparr>]"

section \<open>ephemeris.ts: sidereal time, ascendant and house cusps\<close>

definition calculateSiderealTime :: "real \<Rightarrow> real \<Rightarrow> real" where
  "calculateSiderealTime jd lon =
     (let T = (jd - J2000) / 36525;
          GMST = 280.46061837
                 + 360.98564736629 * (jd - J2000)
                 + 0.000387933 * T * T
                 - T * T * T / 38710000
      in normalizeAngle (GMST + lon))"

definition calculateAscendant :: "real \<Rightarrow> real \<Rightarrow> real \<Rightarrow> real" where
  "calculateAscendant jd lat lon =
     (let LST = calculateSiderealTime jd lon;
          RAMC = LST * DEG_TO_RAD;
          latRad = lat * DEG_TO_RAD;
          obliquity = 23.4393 * DEG_TO_RAD;
          tanAsc = cos RAMC / (- sin RAMC * cos obliquity - tan latRad * sin obliquity);
          asc = arctan tanAsc * RAD_TO_DEG
      in normalizeAngle (if cos RAMC < 0 then asc + 180 else asc))"

definition calculateMidheaven :: "real \<Rightarrow> real \<Rightarrow> real" where
  "calculateMidheaven jd lon =
     (let LST = calculateSiderealTime jd lon;
          RAMC = LST * DEG_TO_RAD;
          obliquity = 23.4393 * DEG_TO_RAD;
          tanMC = tan RAMC / cos obliquity;
          mc = arctan tanMC * RAD_TO_DEG
      in normalizeAngle (if pi / 2 < RAMC \<and> RAMC < 3 * pi / 2 then mc + 180 else mc))"

text \<open>The loop \<^verbatim>\<open>for (i = 0; i < 12; i++) cusps.push(normalizeAngle(asc + i * 30))\<close>.\<close>

definition calculateHouseCusps :: "real \<Rightarrow> real \<Rightarrow> real \<Rightarrow> real list" where
  "calculateHouseCusps jd lat lon =
     (let asc = calculateAscendant jd lat lon
      in map (\<lambda>i. normalizeAngle (asc + real i * 30)) [0..<12])"

section \<open>aspects.ts\<close>

record PlanetPosition =
  pp_id :: PlanetId
  pp_longitude :: real
  pp_latitude :: real
  pp_speed :: "real option"

record AspectData =
  planet1 :: PlanetId
  planet2 :: PlanetId
  aspectType :: AspectId
  exactAngle :: real
  actualAngle :: real
  orb :: real
  applying :: bool
  strength :: real
  weight :: real

definition detectAspect :: "PlanetPosition \<Rightarrow> PlanetPosition \<Rightarrow> AspectDef \<Rightarrow> AspectData option"
  where
  "detectAspect p1 p2 aspectDef =
     (let actual = angleDifference (pp_longitude p1) (pp_longitude p2);
          orb' = \<bar>actual - def_angle aspectDef\<bar>
      in if orb' \<le> def_orb aspectDef then
           (let strength' = 1 - orb' / def_orb aspectDef;
                applying' =
                  (case (pp_speed p1, pp_speed p2) of
                     (Some speed1, Some speed2) \<Rightarrow>
                       (let relativeSpeed = speed1 - speed2;
                            diff = normalizeAngle (pp_longitude p2 - pp_longitude p1)
                        in (diff < 180 \<and> 0 < relativeSpeed)
                           \<or> (180 \<le> diff \<and> relativeSpeed < 0))
                   | _ \<Rightarrow> True);
                p1Weight = (if PLANET_WEIGHTS (pp_id p1) = 0 then 1
                            else PLANET_WEIGHTS (pp_id p1));
                p2Weight = (if PLANET_WEIGHTS (pp_id p2) = 0 then 1
                            else PLANET_WEIGHTS (pp_id p2));
                weight' = strength' * def_weight aspectDef * (p1Weight + p2Weight) / 20
            in Some \<lparr>planet1 = pp_id p1, planet2 = pp_id p2, aspectType = def_id aspectDef,
                     exactAngle = def_angle aspectDef, actualAngle = actual, orb = orb',
                     applying = applying', strength = strength', weight = weight'\<rparr>)
         else None)"

section \<open>natal-chart.ts\<close>

text \<open>
  \<^verbatim>\<open>houseCusps[i]\<close> is \<^verbatim>\<open>undefined\<close> beyond the end of the array, and every
  comparison with \<^verbatim>\<open>undefined\<close> is false: house \<open>i\<close> then holds no longitude.
\<close>

definition cuspAt :: "real list \<Rightarrow> nat \<Rightarrow> real option" where
  "cuspAt houseCusps i = (if i < length houseCusps then Some (houseCusps ! i) else None)"

text \<open>The test of one pass of the loop of \<^verbatim>\<open>getHouse\<close>, for the index \<open>i\<close>.\<close>

definition houseHolds :: "real \<Rightarrow> real list \<Rightarrow> nat \<Rightarrow> bool" where
  "houseHolds normalizedLong houseCusps i =
     (case (cuspAt houseCusps i, cuspAt houseCusps ((i + 1) mod 12)) of
        (Some start, Some end) \<Rightarrow>
          (if end < start then start \<le> normalizedLong \<or> normalizedLong < end
           else start \<le> normalizedLong \<and> normalizedLong < end)
      | _ \<Rightarrow> False)"

definition getHouse :: "real \<Rightarrow> real list \<Rightarrow> nat" where
  "getHouse lon houseCusps =
     (case find (houseHolds (normalizeAngle lon) houseCusps) [0..<12] of
        Some i \<Rightarrow> i + 1
      | None \<Rightarrow> 1)"

record BirthData =
  bd_date :: utc_date
  bd_latitude :: real
  bd_longitude :: real
  bd_timezone :: string

text \<open>
  Of \<^verbatim>\<open>calculateNatalChart\<close>, the statements that fix the houses: the Julian day, the
  twelve cusps, and for each body of \<^verbatim>\<open>PLANETS\<close> its position and the house
  \<^verbatim>\<open>getHouse\<close> gives it. A \<^verbatim>\<open>throw\<close> of \<^verbatim>\<open>calculatePlanetPosition\<close> ends the
  loop. The later fields of the chart (aspects, patterns, balances, dominant bodies, ruler)
  are computed from these and do not change them.
\<close>

fun placeBodies :: "real \<Rightarrow> real list \<Rightarrow> PlanetId list \<Rightarrow> error + (PlanetId \<times> position \<times> nat) list"
  where
  "placeBodies jd houseCusps [] = Inr []"
| "placeBodies jd houseCusps (planet # rest) =
     (case calculatePlanetPosition (planetIdString planet) jd of
        Inl e \<Rightarrow> Inl e
      | Inr pos \<Rightarrow>
          (case placeBodies jd houseCusps rest of
             Inl e \<Rightarrow> Inl e
           | Inr placed \<Rightarrow> Inr ((planet, pos, getHouse (longitude pos) houseCusps) # placed)))"

definition calculateNatalChart_houses ::
  "BirthData \<Rightarrow> error + (real list \<times> (PlanetId \<times> position \<times> nat) list)" where
  "calculateNatalChart_houses birthData =
     (let jd = dateToJulianDay (bd_date birthData);
          houseCusps = calculateHouseCusps jd (bd_latitude birthData) (bd_longitude birthData)
      in case placeBodies jd houseCusps PLANETS of
           Inl e \<Rightarrow> Inl e
         | Inr placed \<Rightarrow> Inr (houseCusps, placed))"

text \<open>The arc from cusp \<open>i\<close> to the next cusp, going forward through the zodiac.\<close>

definition cuspArc :: "real list \<Rightarrow> nat \<Rightarrow> real" where
  "cuspArc houseCusps i = normalizeAngle (houseCusps ! ((i + 1) mod 12) - houseCusps ! i)"

section \<open>progressions.ts\<close>

text \<open>
  \<^verbatim>\<open>calculateProgressedChart\<close> reads the two dates through \<^verbatim>\<open>getTime()\<close>, the
  whole number of milliseconds since the epoch, and builds the progressed date with
  \<^verbatim>\<open>new Date(ms)\<close>, which drops the fraction of a millisecond and gives an invalid date
  beyond 8.64e15 ms on either side of the epoch (\<open>None\<close>).
\<close>

definition newDate :: "real \<Rightarrow> int option" where
  "newDate ms = (if 8640000000000000 < \<bar>ms\<bar> then None else Some (js_trunc ms))"

record ProgressionScale =
  yearsFromBirth :: real
  daysProgressed :: real
  progressedDate :: "int option"

text \<open>
  Of \<^verbatim>\<open>calculateProgressedChart\<close>, the statements that fix the scale of the
  progression (lines 71 to 78); the birth date is \<^verbatim>\<open>natalChart.birthData.date\<close>.
\<close>

definition calculateProgressedChart_scale :: "int \<Rightarrow> int \<Rightarrow> ProgressionScale" where
  "calculateProgressedChart_scale birthDate targetDate =
     (let years = (real_of_int targetDate - real_of_int birthDate)
                  / (365.25 * 24 * 60 * 60 * 1000);
          days = years
      in \<lparr>yearsFromBirth = years, daysProgressed = days,
          progressedDate = newDate (real_of_int birthDate + days * 24 * 60 * 60 * 1000)\<rparr>)"

section \<open>constants.ts: signs and names\<close>

text \<open>
  Strings are lists of characters. The Chinese text of the source is written one code
  point per token, \<^verbatim>\<open><U+571F>\<close> for the character with that code point.
  A union of string literals (\<^verbatim>\<open>PlanetId\<close>, \<^verbatim>\<open>ZodiacId\<close>,
  \<^verbatim>\<open>AspectId\<close>) is a datatype with one constructor for each literal, together
  with the function that gives the literal; arguments are values of their declared types.
\<close>

datatype ZodiacId =
  Aries | Taurus | Gemini | Cancer | Leo | Virgo | Libra | Scorpio | Sagittarius
  | Capricorn | Aquarius | Pisces

fun zodiacIdString :: "ZodiacId \<Rightarrow> string" where
  "zodiacIdString Aries = ''aries''"
| "zodiacIdString Taurus = ''taurus''"
| "zodiacIdString Gemini = ''gemini''"
| "zodiacIdString Cancer = ''cancer''"
| "zodiacIdString Leo = ''leo''"
| "zodiacIdString Virgo = ''virgo''"
| "zodiacIdString Libra = ''libra''"
| "zodiacIdString Scorpio = ''scorpio''"
| "zodiacIdString Sagittarius = ''sagittarius''"
| "zodiacIdString Capricorn = ''capricorn''"
| "zodiacIdString Aquarius = ''aquarius''"
| "zodiacIdString Pisces = ''pisces''"

text \<open>The \<^verbatim>\<open>element\<close> column of \<^verbatim>\<open>ZODIAC_SIGNS\<close>.\<close>

fun zodiacElement :: "ZodiacId \<Rightarrow> string" where
  "zodiacElement Aries = ''fire''"
| "zodiacElement Taurus = ''earth''"
| "zodiacElement Gemini = ''air''"
| "zodiacElement Cancer = ''water''"
| "zodiacElement Leo = ''fire''"
| "zodiacElement Virgo = ''earth''"
| "zodiacElement Libra = ''air''"
| "zodiacElement Scorpio = ''water''"
| "zodiacElement Sagittarius = ''fire''"
| "zodiacElement Capricorn = ''earth''"
| "zodiacElement Aquarius = ''air''"
| "zodiacElement Pisces = ''water''"

text \<open>The \<^verbatim>\<open>name\<close> column of \<^verbatim>\<open>PLANETS\<close>.\<close>

fun planetName :: "PlanetId \<Rightarrow> string" where
  "planetName Sun = ''<U+592A><U+9633>''"
| "planetName Moon = ''<U+6708><U+4EAE>''"
| "planetName Mercury = ''<U+6C34><U+661F>''"
| "planetName Venus = ''<U+91D1><U+661F>''"
| "planetName Mars = ''<U+706B><U+661F>''"
| "planetName Jupiter = ''<U+6728><U+661F>''"
| "planetName Saturn = ''<U+571F><U+661F>''"
| "planetName Uranus = ''<U+5929><U+738B><U+661F>''"
| "planetName Neptune = ''<U+6D77><U+738B><U+661F>''"
| "planetName Pluto = ''<U+51A5><U+738B><U+661F>''"
| "planetName NorthNode = ''<U+5317><U+4EA4><U+70B9>''"
| "planetName Chiron = ''<U+51EF><U+9F99><U+661F>''"

section \<open>Text of numbers\<close>

text \<open>The decimal digits of a natural number, as \<^verbatim>\<open>String(n)\<close> writes them.\<close>

definition digitChar :: "nat \<Rightarrow> char" where
  "digitChar d = ''0123456789'' ! d"

function natToString :: "nat \<Rightarrow> string" where
  "natToString n =
     (if n < 10 then [digitChar n]
      else natToString (n div 10) @ [digitChar (n mod 10)])"
  by pat_completeness auto
termination
  by (relation "measure id") auto

declare natToString.simps [simp del]

definition intToString :: "int \<Rightarrow> string" where
  "intToString i = (if i < 0 then ''-'' @ natToString (nat (- i)) else natToString (nat i))"

text \<open>
  \<^verbatim>\<open>x.toFixed(1)\<close>: the sign, then the nearest number of tenths (the larger one
  on a tie) written with one decimal. JavaScript switches to exponent notation from 1e21
  on; that branch is not part of the model.
\<close>

definition toFixed1 :: "real \<Rightarrow> string" where
  "toFixed1 x =
     (let n = nat \<lfloor>\<bar>x\<bar> * 10 + 1 / 2\<rfloor>
      in (if x < 0 then ''-'' else []) @ natToString (n div 10) @ ''.'' @ natToString (n mod 10))"

text \<open>\<^verbatim>\<open>parts.join(sep)\<close> on an array of strings.\<close>

fun joinWith :: "string \<Rightarrow> string list \<Rightarrow> string" where
  "joinWith sep [] = []"
| "joinWith sep [x] = x"
| "joinWith sep (x # y # rest) = x @ sep @ joinWith sep (y # rest)"

section \<open>influence-factors.ts: types\<close>

record Weights =
  w_dignity :: real
  w_retrograde :: real
  w_aspectPhase :: real
  w_aspectOrb :: real
  w_outerPlanet :: real
  w_profectionLord :: real
  w_lunarPhase :: real
  w_planetaryHour :: real
  w_personal :: real
  w_custom :: real

text \<open>
  The condition of a custom factor. \<^verbatim>\<open>checkCustomCondition\<close> reads
  \<^verbatim>\<open>params\<close> only through the keys \<^verbatim>\<open>start\<close>, \<^verbatim>\<open>end\<close>,
  \<^verbatim>\<open>planet\<close> and \<^verbatim>\<open>sign\<close>, so each kind carries what is read of them: for a
  date range the times that \<^verbatim>\<open>new Date(...)\<close> parses from \<^verbatim>\<open>start\<close> and
  \<^verbatim>\<open>end\<close> (\<open>None\<close> for an invalid date), for the others the strings (\<open>None\<close> when
  the key is missing). The kinds \<^verbatim>\<open>aspect\<close> and \<^verbatim>\<open>custom\<close> fall to the default
  branch.
\<close>

datatype Condition =
  Always
  | DateRange "int option" "int option"
  | Transit "string option"
  | PlanetInSign "string option" "string option"
  | AspectCondition
  | CustomCondition

datatype EffectKey = KOverall | KCareer | KRelationship | KHealth | KFinance | KSpiritual

fun effectKeyString :: "EffectKey \<Rightarrow> string" where
  "effectKeyString KOverall = ''overall''"
| "effectKeyString KCareer = ''career''"
| "effectKeyString KRelationship = ''relationship''"
| "effectKeyString KHealth = ''health''"
| "effectKeyString KFinance = ''finance''"
| "effectKeyString KSpiritual = ''spiritual''"

text \<open>
  \<^verbatim>\<open>effects\<close> is an object with optional keys; \<^verbatim>\<open>Object.entries\<close> lists them in
  the order they were written, so it is the list of its entries (a value \<open>None\<close> is a key
  set to \<^verbatim>\<open>undefined\<close>).
\<close>

record CustomFactor =
  cf_id :: string
  cf_name :: string
  cf_description :: string
  cf_condition :: Condition
  cf_effects :: "(EffectKey \<times> real option) list"
  cf_priority :: real

record InfluenceFactorConfig =
  enabled :: bool
  weights :: Weights
  customFactors :: "CustomFactor list"

record PlanetPlacement =
  pl_id :: PlanetId
  pl_name :: string
  pl_symbol :: string
  pl_longitude :: real
  pl_latitude :: real
  pl_sign :: ZodiacId
  pl_signName :: string
  pl_signSymbol :: string
  pl_signDegree :: real
  pl_house :: int
  pl_retrograde :: bool
  pl_dignityScore :: real

text \<open>
  Of a \<^verbatim>\<open>NatalChart\<close> the pipeline reads the placements and the dominant bodies
  (and \<^verbatim>\<open>elementBalance\<close>, for a value \<^verbatim>\<open>dominantElement\<close> that is never used);
  the record holds the fields that are read.
\<close>

record NatalChart =
  planets :: "PlanetPlacement list"
  dominantPlanets :: "PlanetId list"

record Dimensions =
  career :: real
  relationship :: real
  health :: real
  finance :: real
  spiritual :: real

record Scores =
  overall :: real
  dimensions :: Dimensions

record CurrentState =
  cs_age :: real
  cs_profectionHouse :: real
  cs_lordOfYear :: PlanetId
  cs_lunarPhase :: string
  cs_planetaryDay :: PlanetId
  cs_planetaryHour :: PlanetId
  cs_moonSign :: ZodiacId

text \<open>\<^verbatim>\<open>date\<close> is the time value of the \<^verbatim>\<open>Date\<close> (\<open>None\<close> for an invalid date).\<close>

record FactorContext =
  natalChart :: NatalChart
  date :: "int option"
  rawScores :: Scores
  currentState :: CurrentState
  activeTransits :: "AspectData list"

record AppliedFactor =
  af_id :: string
  af_name :: string
  af_type :: string
  adjustment :: real
  dimension :: string
  reason :: string

record FactorResult =
  adjustedScores :: Scores
  appliedFactors :: "AppliedFactor list"
  totalAdjustment :: real
  summary :: string

definition DEFAULT_FACTOR_CONFIG :: InfluenceFactorConfig where
  "DEFAULT_FACTOR_CONFIG =
     \<lparr>enabled = True,
      weights = \<lparr>w_dignity = 0.8, w_retrograde = 0.6, w_aspectPhase = 0.7, w_aspectOrb = 0.9,
                 w_outerPlanet = 0.85, w_profectionLord = 0.75, w_lunarPhase = 0.5,
                 w_planetaryHour = 0.3, w_personal = 0.8, w_custom = 1.0\<rparr>,
      customFactors = []\<rparr>"

section \<open>influence-factors.ts: the factor generators\<close>

text \<open>\<^verbatim>\<open>DIGNITY_TABLE[planet]?.[sign] || 0\<close>: the entry, or 0 where there is none.\<close>

fun dignityRow :: "PlanetId \<Rightarrow> (ZodiacId \<times> real) list" where
  "dignityRow Sun = [(Leo, 5), (Aries, 4), (Aquarius, - 5), (Libra, - 4)]"
| "dignityRow Moon = [(Cancer, 5), (Taurus, 4), (Capricorn, - 5), (Scorpio, - 4)]"
| "dignityRow Mercury = [(Gemini, 5), (Virgo, 5), (Sagittarius, - 5), (Pisces, - 5)]"
| "dignityRow Venus = [(Taurus, 5), (Libra, 5), (Pisces, 4), (Aries, - 5), (Scorpio, - 5),
                       (Virgo, - 4)]"
| "dignityRow Mars = [(Aries, 5), (Scorpio, 5), (Capricorn, 4), (Libra, - 5), (Taurus, - 5),
                      (Cancer, - 4)]"
| "dignityRow Jupiter = [(Sagittarius, 5), (Pisces, 5), (Cancer, 4), (Gemini, - 5),
                         (Virgo, - 5), (Capricorn, - 4)]"
| "dignityRow Saturn = [(Capricorn, 5), (Aquarius, 5), (Libra, 4), (Cancer, - 5), (Leo, - 5),
                        (Aries, - 4)]"
| "dignityRow Uranus = [(Aquarius, 5), (Scorpio, 4), (Leo, - 5), (Taurus, - 4)]"
| "dignityRow Neptune = [(Pisces, 5), (Cancer, 4), (Virgo, - 5), (Capricorn, - 4)]"
| "dignityRow Pluto = [(Scorpio, 5), (Aries, 4), (Taurus, - 5), (Libra, - 4)]"
| "dignityRow NorthNode = []"
| "dignityRow Chiron = []"

definition DIGNITY_TABLE :: "PlanetId \<Rightarrow> ZodiacId \<Rightarrow> real" where
  "DIGNITY_TABLE planet sign =
     (case map_of (dignityRow planet) sign of Some score \<Rightarrow> score | None \<Rightarrow> 0)"

definition dignityFactorOf :: "real \<Rightarrow> PlanetPlacement \<Rightarrow> AppliedFactor list" where
  "dignityFactorOf factorWeight planet =
     (if pl_id planet \<notin> set [Sun, Moon, Mercury, Venus, Mars] then []
      else
        (let dignityScore = DIGNITY_TABLE (pl_id planet) (pl_sign planet)
         in if dignityScore \<noteq> 0 then
              [\<lparr>af_id = ''dignity_'' @ planetIdString (pl_id planet),
                af_name = planetName (pl_id planet) @ ''<U+5C0A><U+8D35><U+5EA6>'',
                af_type = ''dignity'',
                adjustment = (dignityScore / 5) * 3 * factorWeight,
                dimension = ''overall'',
                reason =
                  (if 0 < dignityScore
                   then planetName (pl_id planet) @ ''<U+5728>'' @ pl_signName planet
                        @ (if dignityScore = 5 then ''<U+5165><U+5E99>'' else ''<U+5165><U+65FA>'') @ ''<U+FF0C><U+529B><U+91CF><U+589E><U+5F3A>''
                   else planetName (pl_id planet) @ ''<U+5728>'' @ pl_signName planet
                        @ (if dignityScore = - 5 then ''<U+5165><U+9677>'' else ''<U+843D><U+9677>'') @ ''<U+FF0C><U+529B><U+91CF><U+51CF><U+5F31>'')\<rparr>]
            else []))"

definition calculateDignityFactor :: "NatalChart \<Rightarrow> real \<Rightarrow> AppliedFactor list" where
  "calculateDignityFactor chart factorWeight = concat (map (dignityFactorOf factorWeight) (planets chart))"

definition aspectPhaseFactorOf :: "real \<Rightarrow> AspectData \<Rightarrow> AppliedFactor" where
  "aspectPhaseFactorOf factorWeight aspect =
     (let phaseMultiplier = (if applying aspect then 1.1 else 0.8);
          adjustment' = weight aspect * phaseMultiplier * 0.8 * factorWeight
      in \<lparr>af_id = ''aspect_phase_'' @ planetIdString (planet1 aspect) @ ''_''
                  @ planetIdString (planet2 aspect),
          af_name = planetName (planet1 aspect) @ aspectIdString (aspectType aspect)
                    @ planetName (planet2 aspect),
          af_type = ''aspectPhase'',
          adjustment = (if applying aspect then adjustment' else - adjustment' * 0.5),
          dimension = ''overall'',
          reason = (if applying aspect then ''<U+5165><U+76F8><U+4F4D><U+FF0C><U+5F71><U+54CD><U+6B63><U+5728><U+589E><U+5F3A>'' else ''<U+51FA><U+76F8><U+4F4D><U+FF0C><U+5F71><U+54CD><U+6B63><U+5728><U+6D88><U+9000>'')\<rparr>)"

definition calculateAspectPhaseFactor :: "AspectData list \<Rightarrow> real \<Rightarrow> AppliedFactor list" where
  "calculateAspectPhaseFactor aspects factorWeight = map (aspectPhaseFactorOf factorWeight) (take 3 aspects)"

text \<open>\<^verbatim>\<open>Math.pow(strength, 1.5)\<close> is the real power.\<close>

definition orbDecayFactorOf :: "real \<Rightarrow> AspectData \<Rightarrow> AppliedFactor list" where
  "orbDecayFactorOf factorWeight aspect =
     (let orbDecay = strength aspect powr 1.5;
          baseAdjustment = weight aspect * 0.5;
          adjustment' = baseAdjustment * orbDecay * factorWeight
      in if orb aspect < 1 then
           [\<lparr>af_id = ''orb_exact_'' @ planetIdString (planet1 aspect) @ ''_''
                    @ planetIdString (planet2 aspect),
             af_name = ''<U+7CBE><U+786E><U+76F8><U+4F4D>'',
             af_type = ''aspectOrb'',
             adjustment = adjustment',
             dimension = ''overall'',
             reason = ''<U+76F8><U+4F4D><U+5BB9><U+8BB8><U+5EA6><U+4EC5> '' @ toFixed1 (orb aspect) @ ''<U+00B0><U+FF0C><U+5F71><U+54CD><U+6781><U+5F3A>''\<rparr>]
         else [])"

definition calculateOrbDecayFactor :: "AspectData list \<Rightarrow> real \<Rightarrow> AppliedFactor list" where
  "calculateOrbDecayFactor aspects factorWeight = concat (map (orbDecayFactorOf factorWeight) (take 2 aspects))"

definition calculateOuterPlanetFactor :: "real \<Rightarrow> real \<Rightarrow> AppliedFactor list" where
  "calculateOuterPlanetFactor age factorWeight =
     (let saturnCycle = js_rem age 29.5
      in (if saturnCycle < 1 \<or> 28.5 < saturnCycle then
            [\<lparr>af_id = ''saturn_return'', af_name = ''<U+571F><U+661F><U+56DE><U+5F52>'', af_type = ''outerPlanet'',
              adjustment = - 15 * factorWeight, dimension = ''overall'',
              reason = ''<U+571F><U+661F><U+56DE><U+5F52><U+671F><U+FF0C><U+4EBA><U+751F><U+7ED3><U+6784><U+6027><U+8C03><U+6574><U+4E0E><U+8003><U+9A8C>''\<rparr>]
          else if \<bar>saturnCycle - 7\<bar> < 1 then
            [\<lparr>af_id = ''saturn_square_1'', af_name = ''<U+571F><U+661F><U+56DB><U+5206>'', af_type = ''outerPlanet'',
              adjustment = - 8 * factorWeight, dimension = ''career'',
              reason = ''<U+571F><U+661F><U+56DB><U+5206><U+671F><U+FF0C><U+4E8B><U+4E1A><U+9762><U+4E34><U+538B><U+529B><U+6D4B><U+8BD5>''\<rparr>]
          else if \<bar>saturnCycle - 14.75\<bar> < 1 then
            [\<lparr>af_id = ''saturn_opposition'', af_name = ''<U+571F><U+661F><U+5BF9><U+51B2>'', af_type = ''outerPlanet'',
              adjustment = - 10 * factorWeight, dimension = ''overall'',
              reason = ''<U+571F><U+661F><U+5BF9><U+51B2><U+671F><U+FF0C><U+9700><U+8981><U+5E73><U+8861><U+8D23><U+4EFB><U+4E0E><U+81EA><U+6211>''\<rparr>]
          else [])
         @ (if 41 \<le> age \<and> age \<le> 43 then
              [\<lparr>af_id = ''uranus_opposition'', af_name = ''<U+5929><U+738B><U+661F><U+5BF9><U+51B2>'', af_type = ''outerPlanet'',
                adjustment = - 12 * factorWeight, dimension = ''overall'',
                reason = ''<U+4E2D><U+5E74><U+89C9><U+9192><U+5371><U+673A><U+FF0C><U+6E34><U+671B><U+6253><U+7834><U+5E38><U+89C4>''\<rparr>,
               \<lparr>af_id = ''uranus_opposition_spiritual'', af_name = ''<U+5929><U+738B><U+661F><U+89C9><U+9192>'',
                af_type = ''outerPlanet'', adjustment = 15 * factorWeight, dimension = ''spiritual'',
                reason = ''<U+7075><U+6027><U+89C9><U+9192><U+7684><U+91CD><U+8981><U+65F6><U+671F>''\<rparr>]
            else [])
         @ (if 49 \<le> age \<and> age \<le> 51 then
              [\<lparr>af_id = ''chiron_return'', af_name = ''<U+51EF><U+9F99><U+56DE><U+5F52>'', af_type = ''outerPlanet'',
                adjustment = 10 * factorWeight, dimension = ''spiritual'',
                reason = ''<U+6DF1><U+5C42><U+7597><U+6108><U+671F><U+FF0C><U+6574><U+5408><U+4EBA><U+751F><U+4F24><U+75DB>''\<rparr>]
            else []))"

text \<open>The local table \<^verbatim>\<open>houseInfluence\<close>: the dimension and its name, by house.\<close>

definition houseInfluence :: "int \<rightharpoonup> string \<times> string" where
  "houseInfluence = map_of
     [(2, (''finance'', ''<U+8D22><U+52A1>'')), (6, (''health'', ''<U+5065><U+5EB7>'')), (7, (''relationship'', ''<U+5173><U+7CFB>'')),
      (10, (''career'', ''<U+4E8B><U+4E1A>'')), (12, (''spiritual'', ''<U+7075><U+6027>''))]"

definition calculateProfectionLordFactor ::
  "NatalChart \<Rightarrow> PlanetId \<Rightarrow> real \<Rightarrow> AppliedFactor list" where
  "calculateProfectionLordFactor chart lordOfYear factorWeight =
     (case find (\<lambda>p. pl_id p = lordOfYear) (planets chart) of
        None \<Rightarrow> []
      | Some lordPlacement \<Rightarrow>
          (let dignityScore = DIGNITY_TABLE lordOfYear (pl_sign lordPlacement)
           in (if dignityScore \<noteq> 0 then
                 [\<lparr>af_id = ''lord_dignity'',
                   af_name = ''<U+5E74><U+5EA6><U+4E3B><U+661F>'' @ planetName lordOfYear @ ''<U+5C0A><U+8D35><U+5EA6>'',
                   af_type = ''profectionLord'',
                   adjustment = (dignityScore / 5) * 15 * factorWeight,
                   dimension = ''overall'',
                   reason =
                     (if 0 < dignityScore
                      then ''<U+5E74><U+5EA6><U+4E3B><U+661F>'' @ planetName lordOfYear @ ''<U+5728>'' @ pl_signName lordPlacement
                           @ ''<U+529B><U+91CF><U+5F3A><U+52B2><U+FF0C><U+5168><U+5E74><U+8FD0><U+52BF><U+52A0><U+6301>''
                      else ''<U+5E74><U+5EA6><U+4E3B><U+661F>'' @ planetName lordOfYear @ ''<U+5728>'' @ pl_signName lordPlacement
                           @ ''<U+529B><U+91CF><U+51CF><U+5F31><U+FF0C><U+5168><U+5E74><U+9700><U+66F4><U+591A><U+52AA><U+529B>'')\<rparr>]
               else [])
              @ (case houseInfluence (pl_house lordPlacement) of
                   None \<Rightarrow> []
                 | Some (dim', dimName) \<Rightarrow>
                     [\<lparr>af_id = ''lord_house_'' @ dim',
                       af_name = ''<U+5E74><U+5EA6><U+4E3B><U+661F><U+5728>'' @ intToString (pl_house lordPlacement) @ ''<U+5BAB>'',
                       af_type = ''profectionLord'',
                       adjustment = 10 * factorWeight,
                       dimension = dim',
                       reason = ''<U+5E74><U+5EA6><U+4E3B><U+661F>'' @ planetName lordOfYear @ ''<U+5728>''
                                @ intToString (pl_house lordPlacement) @ ''<U+5BAB><U+FF0C>'' @ dimName
                                @ ''<U+9886><U+57DF><U+53D7><U+5230><U+5173><U+6CE8>''\<rparr>])))"

text \<open>
  \<^verbatim>\<open>LUNAR_PHASE_EFFECTS\<close>, the finite map of the keys the literal writes down: the
  number \<^verbatim>\<open>overall\<close> and the keywords of each phase.
\<close>

definition LUNAR_PHASE_EFFECTS :: "string \<rightharpoonup> real \<times> string list" where
  "LUNAR_PHASE_EFFECTS = map_of
     [(''<U+65B0><U+6708><U+671F>'', (5, [''<U+5F00><U+59CB>'', ''<U+64AD><U+79CD>'', ''<U+8BBE><U+5B9A><U+610F><U+56FE>''])),
      (''<U+7709><U+6708><U+671F>'', (- 3, [''<U+6323><U+624E>'', ''<U+7A81><U+7834>'', ''<U+5EFA><U+7ACB><U+52A8><U+529B>''])),
      (''<U+4E0A><U+5F26><U+6708><U+671F>'', (8, [''<U+884C><U+52A8>'', ''<U+51B3><U+7B56>'', ''<U+627F><U+8BFA>''])),
      (''<U+76C8><U+51F8><U+6708><U+671F>'', (5, [''<U+5B8C><U+5584>'', ''<U+51C6><U+5907>'', ''<U+8C03><U+6574>''])),
      (''<U+6EE1><U+6708><U+671F>'', (10, [''<U+9AD8><U+5CF0>'', ''<U+6536><U+83B7>'', ''<U+7167><U+89C1>''])),
      (''<U+4E8F><U+51F8><U+6708><U+671F>'', (3, [''<U+5206><U+4EAB>'', ''<U+4F20><U+64AD>'', ''<U+6559><U+5BFC>''])),
      (''<U+4E0B><U+5F26><U+6708><U+671F>'', (- 5, [''<U+91CA><U+653E>'', ''<U+91CD><U+4F30>'', ''<U+8F6C><U+5411>''])),
      (''<U+6B8B><U+6708><U+671F>'', (- 8, [''<U+7ED3><U+675F>'', ''<U+4F11><U+606F>'', ''<U+9884><U+5907>'']))]"

definition calculateLunarPhaseFactor :: "string \<Rightarrow> real \<Rightarrow> AppliedFactor list" where
  "calculateLunarPhaseFactor lunarPhase factorWeight =
     (case LUNAR_PHASE_EFFECTS lunarPhase of
        None \<Rightarrow> []
      | Some (effectOverall, keywords) \<Rightarrow>
          [\<lparr>af_id = ''lunar_phase'', af_name = lunarPhase, af_type = ''lunarPhase'',
            adjustment = effectOverall * factorWeight, dimension = ''overall'',
            reason = lunarPhase @ ''<U+FF1A>'' @ joinWith ''<U+3001>'' keywords\<rparr>])"

fun PLANETARY_HOUR_EFFECTS :: "PlanetId \<Rightarrow> real \<times> string" where
  "PLANETARY_HOUR_EFFECTS Sun = (8, ''career'')"
| "PLANETARY_HOUR_EFFECTS Moon = (3, ''relationship'')"
| "PLANETARY_HOUR_EFFECTS Mercury = (5, ''career'')"
| "PLANETARY_HOUR_EFFECTS Venus = (7, ''relationship'')"
| "PLANETARY_HOUR_EFFECTS Mars = (- 3, ''health'')"
| "PLANETARY_HOUR_EFFECTS Jupiter = (10, ''finance'')"
| "PLANETARY_HOUR_EFFECTS Saturn = (- 5, ''career'')"
| "PLANETARY_HOUR_EFFECTS Uranus = (2, ''spiritual'')"
| "PLANETARY_HOUR_EFFECTS Neptune = (0, ''spiritual'')"
| "PLANETARY_HOUR_EFFECTS Pluto = (- 2, ''spiritual'')"
| "PLANETARY_HOUR_EFFECTS NorthNode = (3, ''spiritual'')"
| "PLANETARY_HOUR_EFFECTS Chiron = (0, ''health'')"

definition calculatePlanetaryHourFactor :: "PlanetId \<Rightarrow> real \<Rightarrow> AppliedFactor list" where
  "calculatePlanetaryHourFactor planetaryHour factorWeight =
     (case PLANETARY_HOUR_EFFECTS planetaryHour of
        (effectOverall, boost) \<Rightarrow>
          [\<lparr>af_id = ''planetary_hour'', af_name = planetName planetaryHour @ ''<U+65F6>'',
            af_type = ''planetaryHour'', adjustment = effectOverall * factorWeight,
            dimension = ''overall'',
            reason = ''<U+5F53><U+524D><U+4E3A>'' @ planetName planetaryHour @ ''<U+65F6><U+FF0C>''
                     @ (if 0 < effectOverall then ''<U+80FD><U+91CF><U+63D0><U+5347>'' else ''<U+9700><U+8981><U+8C28><U+614E>'')\<rparr>]
          @ (if boost \<noteq> [] then
               [\<lparr>af_id = ''planetary_hour_boost_'' @ boost,
                 af_name = planetName planetaryHour @ ''<U+65F6><U+589E><U+76CA>'',
                 af_type = ''planetaryHour'', adjustment = 5 * factorWeight, dimension = boost,
                 reason = planetName planetaryHour @ ''<U+65F6><U+6709><U+5229><U+4E8E>'' @ boost @ ''<U+76F8><U+5173><U+4E8B><U+52A1>''\<rparr>]
             else []))"

definition calculatePersonalFactor ::
  "NatalChart \<Rightarrow> FactorContext \<Rightarrow> real \<Rightarrow> AppliedFactor list" where
  "calculatePersonalFactor chart context factorWeight =
     (case find (\<lambda>p. pl_id p = Moon) (planets chart) of
        None \<Rightarrow> []
      | Some natalMoon \<Rightarrow>
          (if zodiacElement (pl_sign natalMoon)
              = zodiacElement (cs_moonSign (currentState context)) then
             [\<lparr>af_id = ''moon_element_resonance'', af_name = ''<U+6708><U+4EAE><U+5143><U+7D20><U+5171><U+9E23>'', af_type = ''personal'',
               adjustment = 8 * factorWeight, dimension = ''relationship'',
               reason = ''<U+4ECA><U+65E5><U+6708><U+4EAE><U+4E0E><U+4F60><U+7684><U+672C><U+547D><U+6708><U+4EAE><U+540C><U+4E3A>''
                        @ (if zodiacElement (pl_sign natalMoon) = ''fire'' then ''<U+706B>''
                           else if zodiacElement (pl_sign natalMoon) = ''earth'' then ''<U+571F>''
                           else if zodiacElement (pl_sign natalMoon) = ''air'' then ''<U+98CE>''
                           else ''<U+6C34>'')
                        @ ''<U+8C61><U+FF0C><U+60C5><U+611F><U+5171><U+9E23><U+589E><U+5F3A>''\<rparr>]
           else [])
          @ (if pl_sign natalMoon = cs_moonSign (currentState context) then
               [\<lparr>af_id = ''moon_sign_exact'', af_name = ''<U+6708><U+4EAE><U+56DE><U+5F52>'', af_type = ''personal'',
                 adjustment = 12 * factorWeight, dimension = ''overall'',
                 reason = ''<U+4ECA><U+65E5><U+6708><U+4EAE><U+56DE><U+5230><U+4F60><U+7684><U+672C><U+547D><U+6708><U+4EAE><U+661F><U+5EA7>'' @ pl_signName natalMoon
                          @ ''<U+FF0C><U+60C5><U+611F><U+80FD><U+91CF><U+7279><U+522B><U+654F><U+611F>''\<rparr>]
             else []))
     @ (let lordOfYear = cs_lordOfYear (currentState context)
        in if lordOfYear \<in> set (dominantPlanets chart) then
             [\<lparr>af_id = ''lord_is_dominant'', af_name = ''<U+4E3B><U+5BFC><U+884C><U+661F><U+4E3B><U+5BB0><U+5E74>'', af_type = ''personal'',
               adjustment = 10 * factorWeight, dimension = ''overall'',
               reason = ''<U+4ECA><U+5E74><U+7684><U+5E74><U+5EA6><U+4E3B><U+661F>'' @ planetName lordOfYear
                        @ ''<U+6B63><U+662F><U+4F60><U+672C><U+547D><U+76D8><U+7684><U+4E3B><U+5BFC><U+884C><U+661F><U+4E4B><U+4E00><U+FF0C><U+5168><U+5E74><U+8FD0><U+52BF><U+4E0E><U+4E2A><U+4EBA><U+7279><U+8D28><U+9AD8><U+5EA6><U+5171><U+632F>''\<rparr>]
           else [])"

text \<open>
  A comparison of two \<^verbatim>\<open>Date\<close> values is false when either is invalid.
\<close>

definition checkCustomCondition :: "Condition \<Rightarrow> FactorContext \<Rightarrow> bool" where
  "checkCustomCondition condition context =
     (case condition of
        Always \<Rightarrow> True
      | DateRange start end \<Rightarrow>
          (case (date context, start, end) of
             (Some d, Some s, Some e) \<Rightarrow> s \<le> d \<and> d \<le> e
           | _ \<Rightarrow> False)
      | Transit transitPlanet \<Rightarrow>
          list_ex (\<lambda>t. Some (planetIdString (planet1 t)) = transitPlanet
                        \<or> Some (planetIdString (planet2 t)) = transitPlanet)
                  (activeTransits context)
      | PlanetInSign planet sign \<Rightarrow>
          map_option (\<lambda>p. zodiacIdString (pl_sign p))
            (find (\<lambda>p. Some (planetIdString (pl_id p)) = planet) (planets (natalChart context)))
          = sign
      | AspectCondition \<Rightarrow> False
      | CustomCondition \<Rightarrow> False)"

definition customEffects :: "real \<Rightarrow> CustomFactor \<Rightarrow> AppliedFactor list" where
  "customEffects factorWeight custom =
     concat (map (\<lambda>(dim', value).
                    case value of
                      None \<Rightarrow> []
                    | Some v \<Rightarrow>
                        [\<lparr>af_id = cf_id custom, af_name = cf_name custom, af_type = ''custom'',
                          adjustment = v * 20 * factorWeight, dimension = effectKeyString dim',
                          reason = cf_description custom\<rparr>])
                 (cf_effects custom))"

text \<open>
  The priority the sort of \<^verbatim>\<open>applyCustomFactors\<close> gives a factor: that of the first
  custom factor with its id, or 0.
\<close>

definition priorityOf :: "CustomFactor list \<Rightarrow> AppliedFactor \<Rightarrow> real" where
  "priorityOf customs f =
     (case find (\<lambda>c. cf_id c = af_id f) customs of
        None \<Rightarrow> 0
      | Some c \<Rightarrow> cf_priority c)"

text \<open>
  \<^verbatim>\<open>Array.prototype.sort\<close> is stable; with the comparator
  \<^verbatim>\<open>priority(b) - priority(a)\<close> it is the stable sort by falling priority.
\<close>

definition applyCustomFactors ::
  "CustomFactor list \<Rightarrow> FactorContext \<Rightarrow> real \<Rightarrow> AppliedFactor list" where
  "applyCustomFactors customs context factorWeight =
     sort_key (\<lambda>f. - priorityOf customs f)
       (concat (map (\<lambda>custom.
                       if \<not> checkCustomCondition (cf_condition custom) context then []
                       else customEffects factorWeight custom)
                    customs))"

section \<open>influence-factors.ts: applyInfluenceFactors\<close>

text \<open>The nine guarded pushes into \<^verbatim>\<open>allFactors\<close>, in the order of the source.\<close>

definition collectFactors :: "FactorContext \<Rightarrow> InfluenceFactorConfig \<Rightarrow> AppliedFactor list" where
  "collectFactors context config =
     (if 0 < w_dignity (weights config)
      then calculateDignityFactor (natalChart context) (w_dignity (weights config)) else [])
     @ (if 0 < w_aspectPhase (weights config)
        then calculateAspectPhaseFactor (activeTransits context) (w_aspectPhase (weights config))
        else [])
     @ (if 0 < w_aspectOrb (weights config)
        then calculateOrbDecayFactor (activeTransits context) (w_aspectOrb (weights config))
        else [])
     @ (if 0 < w_outerPlanet (weights config)
        then calculateOuterPlanetFactor (cs_age (currentState context))
               (w_outerPlanet (weights config))
        else [])
     @ (if 0 < w_profectionLord (weights config)
        then calculateProfectionLordFactor (natalChart context)
               (cs_lordOfYear (currentState context)) (w_profectionLord (weights config))
        else [])
     @ (if 0 < w_lunarPhase (weights config)
        then calculateLunarPhaseFactor (cs_lunarPhase (currentState context))
               (w_lunarPhase (weights config))
        else [])
     @ (if 0 < w_planetaryHour (weights config)
        then calculatePlanetaryHourFactor (cs_planetaryHour (currentState context))
               (w_planetaryHour (weights config))
        else [])
     @ (if 0 < w_personal (weights config)
        then calculatePersonalFactor (natalChart context) context (w_personal (weights config))
        else [])
     @ (if 0 < w_custom (weights config) \<and> 0 < length (customFactors config)
        then applyCustomFactors (customFactors config) context (w_custom (weights config))
        else [])"

text \<open>
  \<^verbatim>\<open>adjustedScores.dimensions[dim'] += adjustment\<close>, done only when the dimension is
  one of the five keys of \<^verbatim>\<open>dimensions\<close>.
\<close>

definition addToDimension :: "string \<Rightarrow> real \<Rightarrow> Dimensions \<Rightarrow> Dimensions" where
  "addToDimension dim' amount dims =
     (if dim' = ''career'' then dims\<lparr>career := career dims + amount\<rparr>
      else if dim' = ''relationship'' then dims\<lparr>relationship := relationship dims + amount\<rparr>
      else if dim' = ''health'' then dims\<lparr>health := health dims + amount\<rparr>
      else if dim' = ''finance'' then dims\<lparr>finance := finance dims + amount\<rparr>
      else if dim' = ''spiritual'' then dims\<lparr>spiritual := spiritual dims + amount\<rparr>
      else dims)"

text \<open>
  The loop over \<^verbatim>\<open>allFactors\<close>; the state is the pair of the scores and
  \<^verbatim>\<open>totalOverallAdjustment\<close>.
\<close>

fun addFactors :: "AppliedFactor list \<Rightarrow> Scores \<times> real \<Rightarrow> Scores \<times> real" where
  "addFactors [] state = state"
| "addFactors (factor # rest) (scores, totalOverall) =
     (if dimension factor = ''overall''
      then addFactors rest
             (scores\<lparr>overall := overall scores + adjustment factor\<rparr>,
              totalOverall + adjustment factor)
      else addFactors rest
             (scores\<lparr>dimensions :=
                       addToDimension (dimension factor) (adjustment factor) (dimensions scores)\<rparr>,
              totalOverall))"

definition clampScores :: "Scores \<Rightarrow> Scores" where
  "clampScores scores =
     \<lparr>overall = max (- 100) (min 100 (overall scores)),
      dimensions =
        \<lparr>career = max 0 (min 100 (career (dimensions scores))),
         relationship = max 0 (min 100 (relationship (dimensions scores))),
         health = max 0 (min 100 (health (dimensions scores))),
         finance = max 0 (min 100 (finance (dimensions scores))),
         spiritual = max 0 (min 100 (spiritual (dimensions scores)))\<rparr>\<rparr>"

definition summaryOf :: "AppliedFactor list \<Rightarrow> string" where
  "summaryOf allFactors =
     (let positiveFactors = filter (\<lambda>f. 0 < adjustment f) allFactors;
          negativeFactors = filter (\<lambda>f. adjustment f < 0) allFactors;
          summary1 =
            (if 0 < length positiveFactors
             then ''<U+6709><U+5229><U+56E0><U+5B50><U+FF1A>'' @ joinWith ''<U+3001>'' (map af_name (take 3 positiveFactors))
             else []);
          summary2 =
            (if 0 < length negativeFactors
             then (if summary1 \<noteq> [] then summary1 @ ''<U+FF1B>'' else summary1)
                  @ ''<U+9700><U+6CE8><U+610F><U+FF1A>'' @ joinWith ''<U+3001>'' (map af_name (take 3 negativeFactors))
             else summary1)
      in if summary2 = [] then ''<U+5F53><U+524D><U+65E0><U+663E><U+8457><U+5F71><U+54CD><U+56E0><U+5B50>'' else summary2)"

definition applyInfluenceFactors :: "FactorContext \<Rightarrow> InfluenceFactorConfig \<Rightarrow> FactorResult"
  where
  "applyInfluenceFactors context config =
     (if \<not> enabled config then
        \<lparr>adjustedScores = rawScores context, appliedFactors = [], totalAdjustment = 0,
         summary = ''<U+5F71><U+54CD><U+56E0><U+5B50><U+5DF2><U+7981><U+7528>''\<rparr>
      else
        (let allFactors = collectFactors context config;
             (summed, totalOverallAdjustment) = addFactors allFactors (rawScores context, 0)
         in \<lparr>adjustedScores = clampScores summed, appliedFactors = allFactors,
             totalAdjustment = totalOverallAdjustment, summary = summaryOf allFactors\<rparr>))"

text \<open>
  The overall score in double arithmetic, from the point where the loop reaches the custom
  factors, which come last in \<^verbatim>\<open>allFactors\<close>: \<open>overallBefore\<close> is the score
  after the factors of the first eight generators, \<open>overallEffects\<close> are the
  \<^verbatim>\<open>overall\<close> effects of the custom factors whose condition holds, in the order of
  the sorted list. Each is scaled as in \<^verbatim>\<open>value * 20 * weight\<close> and added with
  \<^verbatim>\<open>+=\<close>; the sum is clamped with
  \<^verbatim>\<open>Math.max(-100, Math.min(100, overall))\<close>.
\<close>

definition customAdjustment_double :: "jsnum \<Rightarrow> jsnum \<Rightarrow> jsnum" where
  "customAdjustment_double v factorWeight = jsMul (jsMul v (Finite 20)) factorWeight"

definition adjustedOverall_double :: "jsnum \<Rightarrow> jsnum \<Rightarrow> jsnum list \<Rightarrow> jsnum" where
  "adjustedOverall_double overallBefore factorWeight overallEffects =
     jsMax (Finite (- 100))
       (jsMin (Finite 100)
          (foldl jsAdd overallBefore
             (map (\<lambda>v. customAdjustment_double v factorWeight) overallEffects)))"

section \<open>Notions used in the statements and proofs\<close>

text \<open>A sum below 720 and not below 0 is normalized by at most one subtraction of 360.\<close>

definition wrap360 :: "real \<Rightarrow> real" where
  "wrap360 x = (if x < 360 then x else x - 360)"

text \<open>The twelve equal-house cusps that start at a given ascendant.\<close>

definition equalCusps :: "real \<Rightarrow> real list" where
  "equalCusps asc = map (\<lambda>i. normalizeAngle (asc + real i * 30)) [0..<12]"

text \<open>The distance from the ascendant forward to a longitude, and the cusp index it falls at.\<close>

definition fromAsc :: "real \<Rightarrow> real \<Rightarrow> real" where
  "fromAsc asc l = (if asc \<le> l then l - asc else l - asc + 360)"

definition houseIndex :: "real \<Rightarrow> real \<Rightarrow> nat" where
  "houseIndex asc l = nat \<lfloor>fromAsc asc l / 30\<rfloor>"


text \<open>
  The selection the specification words for the summary: the three positive factors of
  largest adjustment, and the three negative factors of most negative adjustment.
\<close>

definition spec_topPositive :: "AppliedFactor list \<Rightarrow> AppliedFactor list" where
  "spec_topPositive fs =
     take 3 (sort_key (\<lambda>f. - adjustment f) (filter (\<lambda>f. 0 < adjustment f) fs))"

definition spec_topNegative :: "AppliedFactor list \<Rightarrow> AppliedFactor list" where
  "spec_topNegative fs = take 3 (sort_key adjustment (filter (\<lambda>f. adjustment f < 0) fs))"

subsection \<open>Concrete inputs\<close>

definition noonJ2000 :: utc_date where
  "noonJ2000 = \<lparr>getUTCFullYear = 2000, getUTCMonth = 0, getUTCDate = 1,
                 getUTCHours = 12, getUTCMinutes = 0, getUTCSeconds = 0\<rparr>"

definition bornAtNoonJ2000 :: BirthData where
  "bornAtNoonJ2000 =
     \<lparr>bd_date = noonJ2000, bd_latitude = 0, bd_longitude = 0, bd_timezone = ''UTC''\<rparr>"

definition sunAt100 :: PlanetPosition where
  "sunAt100 = \<lparr>pp_id = Sun, pp_longitude = 100, pp_latitude = 0, pp_speed = Some 1\<rparr>"


definition moonAt100 :: PlanetPosition where
  "moonAt100 = \<lparr>pp_id = Moon, pp_longitude = 100, pp_latitude = 0, pp_speed = Some 13\<rparr>"

definition conjunctionDef :: AspectDef where
  "conjunctionDef = \<lparr>def_id = Conjunction, def_angle = 0, def_orb = 10, def_nature = ''major'',
                      def_harmony = ''neutral'', def_weight = 10\<rparr>"

definition sunInLeo :: PlanetPlacement where
  "sunInLeo = \<lparr>pl_id = Sun, pl_name = ''<U+592A><U+9633>'', pl_symbol = ''<U+2609>'', pl_longitude = 130,
      pl_latitude = 0, pl_sign = Leo, pl_signName = ''<U+72EE><U+5B50><U+5EA7>'', pl_signSymbol = ''<U+264C>'',
      pl_signDegree = 10, pl_house = 5, pl_retrograde = False, pl_dignityScore = 5\<rparr>"

definition moonInCancer :: PlanetPlacement where
  "moonInCancer = \<lparr>pl_id = Moon, pl_name = ''<U+6708><U+4EAE>'', pl_symbol = ''<U+263D>'', pl_longitude = 100,
      pl_latitude = 0, pl_sign = Cancer, pl_signName = ''<U+5DE8><U+87F9><U+5EA7>'', pl_signSymbol = ''<U+264B>'',
      pl_signDegree = 10, pl_house = 4, pl_retrograde = False, pl_dignityScore = 5\<rparr>"

definition mercuryInGemini :: PlanetPlacement where
  "mercuryInGemini = \<lparr>pl_id = Mercury, pl_name = ''<U+6C34><U+661F>'', pl_symbol = ''<U+263F>'',
      pl_longitude = 70, pl_latitude = 0, pl_sign = Gemini, pl_signName = ''<U+53CC><U+5B50><U+5EA7>'',
      pl_signSymbol = ''<U+264A>'', pl_signDegree = 10, pl_house = 3, pl_retrograde = False,
      pl_dignityScore = 5\<rparr>"

text \<open>
  A chart with the Sun, the Moon and Mercury in their own signs, seen at the age of 20
  under a full moon in the hour of Jupiter, with no transit aspect.
\<close>

definition dignifiedContext :: FactorContext where
  "dignifiedContext =
     \<lparr>natalChart =
        \<lparr>planets = [sunInLeo, moonInCancer, mercuryInGemini], dominantPlanets = []\<rparr>,
      date = Some 1700000000000,
      rawScores = \<lparr>overall = 50,
                    dimensions = \<lparr>career = 50, relationship = 50, health = 50, finance = 50,
                                   spiritual = 50\<rparr>\<rparr>,
      currentState = \<lparr>cs_age = 20, cs_profectionHouse = 9, cs_lordOfYear = Jupiter,
                       cs_lunarPhase = ''<U+6EE1><U+6708><U+671F>'', cs_planetaryDay = Sun,
                       cs_planetaryHour = Jupiter, cs_moonSign = Aries\<rparr>,
      activeTransits = []\<rparr>"

text \<open>
  A custom factor far beyond the documented range of effects, and a configuration that
  gives it and every generator full weight.
\<close>

definition extremeCustom :: CustomFactor where
  "extremeCustom =
     \<lparr>cf_id = ''extreme'', cf_name = ''extreme'', cf_description = ''beyond the range'',
      cf_condition = Always,
      cf_effects = [(KOverall, Some 1000), (KCareer, Some 1000), (KHealth, Some (- 1000))],
      cf_priority = 0\<rparr>"

definition extremeConfig :: InfluenceFactorConfig where
  "extremeConfig =
     \<lparr>enabled = True,
      weights = \<lparr>w_dignity = 1, w_retrograde = 1, w_aspectPhase = 1, w_aspectOrb = 1,
                 w_outerPlanet = 1, w_profectionLord = 1, w_lunarPhase = 1,
                 w_planetaryHour = 1, w_personal = 1, w_custom = 1\<rparr>,
      customFactors = [extremeCustom]\<rparr>"

text \<open>Four custom factors with different conditions and priorities.\<close>

definition customA :: CustomFactor where
  "customA =
     \<lparr>cf_id = ''a'', cf_name = ''A'', cf_description = ''always'', cf_condition = Always,
      cf_effects = [(KOverall, Some 0.5), (KCareer, None), (KHealth, Some (- 0.25))],
      cf_priority = 1\<rparr>"

definition customB :: CustomFactor where
  "customB =
     \<lparr>cf_id = ''b'', cf_name = ''B'', cf_description = ''a transit of Mars'',
      cf_condition = Transit (Some ''mars''), cf_effects = [(KOverall, Some 1)],
      cf_priority = 9\<rparr>"

definition customC :: CustomFactor where
  "customC =
     \<lparr>cf_id = ''c'', cf_name = ''C'', cf_description = ''Sun in Leo'',
      cf_condition = PlanetInSign (Some ''sun'') (Some ''leo''),
      cf_effects = [(KFinance, Some 1)], cf_priority = 5\<rparr>"

definition customD :: CustomFactor where
  "customD =
     \<lparr>cf_id = ''d'', cf_name = ''D'', cf_description = ''a range of dates'',
      cf_condition = DateRange (Some 0) (Some 1800000000000),
      cf_effects = [(KSpiritual, Some 1)], cf_priority = 5\<rparr>"

definition saturnInCapricorn :: PlanetPlacement where
  "saturnInCapricorn = \<lparr>pl_id = Saturn, pl_name = ''<U+571F><U+661F>'', pl_symbol = ''<U+2644>'',
      pl_longitude = 280, pl_latitude = 0, pl_sign = Capricorn, pl_signName = ''<U+6469><U+7FAF><U+5EA7>'',
      pl_signSymbol = ''<U+2651>'', pl_signDegree = 10, pl_house = 10, pl_retrograde = False,
      pl_dignityScore = 5\<rparr>"

definition exactTrine :: AspectData where
  "exactTrine = \<lparr>planet1 = Sun, planet2 = Moon, aspectType = Trine, exactAngle = 120,
      actualAngle = 120.5, orb = 0.5, applying = True, strength = 0, weight = 1\<rparr>"

definition disabledConfig :: InfluenceFactorConfig where
  "disabledConfig = DEFAULT_FACTOR_CONFIG\<lparr>enabled := False\<rparr>"

section \<open>Angle normalization\<close>

lemma js_rem_360_bounds: "- 360 < js_rem a 360 \<and> js_rem a 360 < 360"
  unfolding js_rem_def js_trunc_def by (auto; linarith)

lemma normalizeAngle_range: "0 \<le> normalizeAngle a \<and> normalizeAngle a < 360"
  using js_rem_360_bounds [of a] by (simp add: normalizeAngle_def Let_def)

lemma normalizeAngle_id:
  assumes "0 \<le> x" and "x < 360"
  shows "normalizeAngle x = x"
proof -
  from assms have "\<lfloor>x / 360\<rfloor> = 0"
    by (simp add: floor_eq_iff)
  with assms show ?thesis
    by (simp add: normalizeAngle_def js_rem_def js_trunc_def Let_def)
qed

lemma normalizeAngle_over:
  assumes "360 \<le> x" and "x < 720"
  shows "normalizeAngle x = x - 360"
proof -
  from assms have "\<lfloor>x / 360\<rfloor> = 1"
    by (simp add: floor_eq_iff)
  with assms show ?thesis
    by (simp add: normalizeAngle_def js_rem_def js_trunc_def Let_def)
qed

lemma normalizeAngle_under:
  assumes "- 360 < x" and "x < 0"
  shows "normalizeAngle x = x + 360"
proof -
  from assms have "\<lfloor>- (x / 360)\<rfloor> = 0"
    by (simp add: floor_eq_iff)
  with assms show ?thesis
    by (simp add: normalizeAngle_def js_rem_def js_trunc_def Let_def)
qed

lemma normalizeAngle_wrap:
  assumes "0 \<le> x" and "x < 720"
  shows "normalizeAngle x = wrap360 x"
  using assms normalizeAngle_id [of x] normalizeAngle_over [of x]
  by (simp add: wrap360_def)




subsection \<open>The sum that rounds to 360\<close>

lemma binade_near_360: "\<lfloor>log 2 \<bar>360 - 1 / 2 ^ 70\<bar>\<rfloor> = 8"
proof -
  have pos: "(0::real) < 360 - 1 / 2 ^ 70" by simp
  have "(2::real) powr real_of_int 8 \<le> 360 - 1 / 2 ^ 70
        \<and> 360 - 1 / 2 ^ 70 < (2::real) powr real_of_int (8 + 1)"
    by simp
  then have "\<lfloor>log 2 (360 - 1 / 2 ^ 70)\<rfloor> = 8"
    using floor_log_eq_powr_iff [of "360 - 1 / 2 ^ 70" 2 8] pos by simp
  then show ?thesis using pos by simp
qed

lemma ulp_near_360: "(2::real) powr (real_of_int 8 - 52) = 1 / 2 ^ 44"
proof -
  have "(2::real) powr (real_of_int 8 - 52) = 2 powr (- 44)" by simp
  also have "\<dots> = inverse (2 powr 44)" by (rule powr_minus)
  also have "\<dots> = 1 / 2 ^ 44" by (simp add: inverse_eq_divide)
  finally show ?thesis .
qed

text \<open>
  The doubles next to 360 are \<open>2 ^ 44\<close>ths; \<open>360 - 2 ^ -70\<close> lies \<open>2 ^ -26\<close> of
  such a step below 360 and rounds up to it.
\<close>

lemma doubleRound_near_360: "doubleRound (360 - 1 / 2 ^ 70) = 360"
proof -
  have q: "(360 - 1 / 2 ^ 70) / (1 / 2 ^ 44) = (6333186975989760 - 1 / 2 ^ 26 :: real)"
    by simp
  have f: "\<lfloor>6333186975989760 - 1 / 2 ^ 26 :: real\<rfloor> = 6333186975989759"
    by (simp add: floor_eq_iff)
  have r: "roundTiesToEven (6333186975989760 - 1 / 2 ^ 26) = 6333186975989760"
    unfolding roundTiesToEven_def Let_def f by simp
  have nz: "(360 - 1 / 2 ^ 70 :: real) \<noteq> 0" by simp
  show ?thesis
    unfolding doubleRound_def Let_def binade_near_360 ulp_near_360 q r
    using nz by simp
qed

text \<open>
  Claim C9 fails on the program. At the double \<open>- 2 ^ -70\<close> the remainder is the
  argument itself, and its sum with 360 rounds to 360: the result of
  \<^verbatim>\<open>normalizeAngle\<close> is 360, which is not in the half-open interval from 0 to 360,
  and applying \<^verbatim>\<open>normalizeAngle\<close> to that result gives 0, not the result again.
\<close>

theorem normalizeAngle_double_reaches_360:
  "normalizeAngle_double (- (1 / 2 ^ 70)) = 360
   \<and> normalizeAngle_double (normalizeAngle_double (- (1 / 2 ^ 70))) = 0"
proof -
  have r: "js_rem (- (1 / 2 ^ 70)) 360 = - (1 / 2 ^ 70)"
    by (simp add: js_rem_def js_trunc_def floor_eq_iff)
  have neg: "(- (1 / 2 ^ 70) :: real) < 0" by simp
  have s: "- (1 / 2 ^ 70) + 360 = (360 - 1 / 2 ^ 70 :: real)" by simp
  have a: "normalizeAngle_double (- (1 / 2 ^ 70)) = 360"
    unfolding normalizeAngle_double_def Let_def r if_P [OF neg] s
    by (rule doubleRound_near_360)
  have b: "normalizeAngle_double 360 = 0"
    by (simp add: normalizeAngle_double_def js_rem_def js_trunc_def Let_def)
  show ?thesis unfolding a b by (intro conjI refl)
qed

section \<open>The reference instant\<close>

lemma julian_day_noonJ2000: "dateToJulianDay noonJ2000 = 2451545.0"
  by (simp add: dateToJulianDay_def noonJ2000_def Let_def)

lemma sun_series_bound:
  fixes s1 s2 s3 :: real
  assumes "\<bar>s1\<bar> \<le> 3 / 50" and "\<bar>s2\<bar> \<le> 1" and "\<bar>s3\<bar> \<le> 1"
  shows "\<bar>1.9146 * s1 + 0.019993 * s2 + 0.00029 * s3\<bar> \<le> 1 / 5"
proof -
  have "1.9146 * s1 + 0.019993 * s2 + 0.00029 * s3
        = (9573 / 5000) * s1 + (19993 / 1000000) * s2 + (29 / 100000) * s3"
    by simp
  with assms show ?thesis by (simp only:)
qed

lemma sin_sun_anomaly_J2000: "\<bar>sin (357.5291092 * DEG_TO_RAD)\<bar> \<le> 3 / 50"
proof -
  have "357.5291092 * DEG_TO_RAD = 2 * pi - 2.4708908 * (pi / 180)"
    by (simp add: DEG_TO_RAD_def)
  then have "sin (357.5291092 * DEG_TO_RAD) = - sin (2.4708908 * (pi / 180))"
    by (simp only: sin_2pi_minus)
  moreover have "\<bar>sin (2.4708908 * (pi / 180))\<bar> \<le> \<bar>2.4708908 * (pi / 180)\<bar>"
    by (rule abs_sin_x_le_abs_x)
  moreover have "\<bar>2.4708908 * (pi / 180)\<bar> \<le> 3 / 50"
    using pi_less_4 by simp
  ultimately show ?thesis by simp
qed

lemma sun_longitude_J2000_eq:
  "longitude (calculateSunPosition 2451545) =
     normalizeAngle (normalizeAngle 280.4664567
       + (1.9146 * sin (normalizeAngle 357.5291092 * DEG_TO_RAD)
          + 0.019993 * sin (2 * (normalizeAngle 357.5291092 * DEG_TO_RAD))
          + 0.00029 * sin (3 * (normalizeAngle 357.5291092 * DEG_TO_RAD))))"
  by (simp add: calculateSunPosition_def Let_def J2000_def)

lemma sun_longitude_J2000: "\<bar>longitude (calculateSunPosition 2451545) - 280.5\<bar> < 1"
proof -
  define M where "M = 357.5291092 * DEG_TO_RAD"
  define C where "C = 1.9146 * sin M + 0.019993 * sin (2 * M) + 0.00029 * sin (3 * M)"
  have n1: "normalizeAngle 280.4664567 = 280.4664567"
    by (rule normalizeAngle_id) simp_all
  have n2: "normalizeAngle 357.5291092 = 357.5291092"
    by (rule normalizeAngle_id) simp_all
  have cb: "\<bar>C\<bar> \<le> 1 / 5"
    unfolding C_def M_def
    by (rule sun_series_bound [OF sin_sun_anomaly_J2000 abs_sin_le_one abs_sin_le_one])
  have lon: "longitude (calculateSunPosition 2451545) = normalizeAngle (280.4664567 + C)"
    unfolding sun_longitude_J2000_eq n1 n2 C_def M_def ..
  have "0 \<le> 280.4664567 + C" and "280.4664567 + C < 360"
    using cb by (auto simp: abs_le_iff)
  then have n3: "normalizeAngle (280.4664567 + C) = 280.4664567 + C"
    by (rule normalizeAngle_id)
  show ?thesis
    using cb unfolding lon n3 by (auto simp: abs_le_iff abs_less_iff)
qed

text \<open>
  Claim C8. For the civil timestamp 2000-01-01T12:00:00Z, \<open>dateToJulianDay\<close> returns
  exactly 2451545.0, and the longitude that \<open>calculateSunPosition\<close> gives at that Julian
  day is less than one degree away from 280.5.
\<close>

theorem known_instant_J2000:
  "dateToJulianDay noonJ2000 = 2451545.0
   \<and> \<bar>longitude (calculateSunPosition (dateToJulianDay noonJ2000)) - 280.5\<bar> < 1"
  using sun_longitude_J2000 by (simp add: julian_day_noonJ2000)

section \<open>Unknown bodies\<close>

lemma calculatePlanetPosition_planet:
  "\<exists>pos. calculatePlanetPosition (planetIdString planet) jd = Inr pos"
  by (cases planet) (simp_all add: calculatePlanetPosition_def ORBITAL_ELEMENTS_def)

text \<open>
  Off the inherited property names the guard is the one of the model: there
  \<open>calculatePlanetPosition\<close> is \<open>UnknownBody\<close> exactly when the code throws.
\<close>

lemma calculatePlanetPosition_throws_model:
  "planetId \<notin> set objectPrototypeKeys \<Longrightarrow>
   calculatePlanetPosition_throws planetId = isl (calculatePlanetPosition planetId jd)"
  by (auto simp: calculatePlanetPosition_throws_def elementsFound_def
        calculatePlanetPosition_def split: option.splits)

text \<open>
  Claim C4 fails on the program. The identifier \<^verbatim>\<open>constructor\<close> is none of the
  twelve identifiers of \<^verbatim>\<open>PLANETS\<close>, yet the lookup in the table finds the
  inherited property of that name and \<^verbatim>\<open>calculatePlanetPosition\<close> does not reach
  its \<^verbatim>\<open>throw\<close>; the same holds of \<^verbatim>\<open>earth\<close>, a key of the table that is no
  identifier of \<^verbatim>\<open>PLANETS\<close>. An identifier that is no property of the table, such
  as \<^verbatim>\<open>vulcan\<close>, does reach it.
\<close>

theorem calculatePlanetPosition_unrecognized_returns:
  "''constructor'' \<notin> set (map planetIdString PLANETS)
   \<and> calculatePlanetPosition_throws ''constructor'' = False
   \<and> ''earth'' \<notin> set (map planetIdString PLANETS)
   \<and> calculatePlanetPosition_throws ''earth'' = False
   \<and> calculatePlanetPosition_throws ''vulcan'' = True"
  by (simp add: calculatePlanetPosition_throws_def elementsFound_def ORBITAL_ELEMENTS_def
        objectPrototypeKeys_def PLANETS_def)

section \<open>The houses of a natal chart\<close>

lemma equalCusps_nth:
  assumes "0 \<le> asc" "asc < 360" "i < 12"
  shows "cuspAt (equalCusps asc) i = Some (wrap360 (asc + real i * 30))"
proof -
  have "normalizeAngle (asc + real i * 30) = wrap360 (asc + real i * 30)"
    using assms by (intro normalizeAngle_wrap) auto
  with assms show ?thesis by (simp add: cuspAt_def equalCusps_def)
qed

lemma equalCusps_next:
  assumes "0 \<le> asc" "asc < 360" "i < 12"
  shows "cuspAt (equalCusps asc) (Suc i mod 12) = Some (wrap360 (asc + real i * 30 + 30))"
proof (cases "i = 11")
  case True
  with assms show ?thesis
    using equalCusps_nth [of asc 0] by (simp add: wrap360_def)
next
  case False
  with assms have less: "Suc i < 12" by simp
  have "cuspAt (equalCusps asc) (Suc i) = Some (wrap360 (asc + real (Suc i) * 30))"
    using assms(1,2) less by (rule equalCusps_nth)
  moreover have "Suc i mod 12 = Suc i" using less by simp
  moreover have "asc + real (Suc i) * 30 = asc + real i * 30 + 30" by (simp add: algebra_simps)
  ultimately show ?thesis by (simp only:)
qed

lemma bracket_arith:
  fixes asc l t :: real
  assumes "0 \<le> asc" "asc < 360" "0 \<le> l" "l < 360" "0 \<le> t" "t \<le> 330"
  shows "(if wrap360 (asc + t + 30) < wrap360 (asc + t)
          then wrap360 (asc + t) \<le> l \<or> l < wrap360 (asc + t + 30)
          else wrap360 (asc + t) \<le> l \<and> l < wrap360 (asc + t + 30))
         \<longleftrightarrow> t \<le> fromAsc asc l \<and> fromAsc asc l < t + 30"
proof (cases "asc + t < 360")
  case True
  note a = True
  show ?thesis
  proof (cases "asc + t + 30 < 360")
    case True
    with a assms show ?thesis
      unfolding wrap360_def fromAsc_def by (cases "asc \<le> l") (simp_all, linarith+)
  next
    case False
    with a assms show ?thesis
      unfolding wrap360_def fromAsc_def by (cases "asc \<le> l") (simp_all, linarith+)
  qed
next
  case False
  then have b: "\<not> asc + t + 30 < 360" by simp
  from False b assms show ?thesis
    unfolding wrap360_def fromAsc_def by (cases "asc \<le> l") (simp_all, linarith+)
qed

lemma houseHolds_iff:
  assumes "0 \<le> asc" "asc < 360" "0 \<le> l" "l < 360" "i < 12"
  shows "houseHolds l (equalCusps asc) i
         \<longleftrightarrow> real i * 30 \<le> fromAsc asc l \<and> fromAsc asc l < real i * 30 + 30"
proof -
  have t: "0 \<le> real i * 30" "real i * 30 \<le> 330" using assms by simp_all
  have "houseHolds l (equalCusps asc) i =
        (if wrap360 (asc + real i * 30 + 30) < wrap360 (asc + real i * 30)
         then wrap360 (asc + real i * 30) \<le> l \<or> l < wrap360 (asc + real i * 30 + 30)
         else wrap360 (asc + real i * 30) \<le> l \<and> l < wrap360 (asc + real i * 30 + 30))"
    unfolding houseHolds_def Suc_eq_plus1 [symmetric]
      equalCusps_nth [OF assms(1,2,5)] equalCusps_next [OF assms(1,2,5)]
    by (simp only: prod.case option.case)
  then show ?thesis
    using bracket_arith [OF assms(1-4) t] by (simp only:)
qed

lemma cuspAt_Some_nth: "cuspAt cs i = Some v \<Longrightarrow> cs ! i = v"
  by (simp add: cuspAt_def split: if_splits)

lemma cuspArc_30:
  assumes "0 \<le> asc" "asc < 360" "i < 12"
  shows "cuspArc (equalCusps asc) i = 30"
proof -
  define t where "t = real i * 30"
  have t: "0 \<le> t" "t \<le> 330" using assms by (simp_all add: t_def)
  have a: "equalCusps asc ! i = wrap360 (asc + t)"
    unfolding t_def by (rule cuspAt_Some_nth [OF equalCusps_nth [OF assms]])
  have b: "equalCusps asc ! ((i + 1) mod 12) = wrap360 (asc + t + 30)"
    unfolding t_def Suc_eq_plus1 [symmetric]
    by (rule cuspAt_Some_nth [OF equalCusps_next [OF assms]])
  have "wrap360 (asc + t + 30) - wrap360 (asc + t) = 30
        \<or> wrap360 (asc + t + 30) - wrap360 (asc + t) = - 330"
    using assms(1,2) t unfolding wrap360_def
    by (cases "asc + t < 360"; cases "asc + t + 30 < 360") simp_all
  then show ?thesis
  proof
    assume "wrap360 (asc + t + 30) - wrap360 (asc + t) = 30"
    then show ?thesis unfolding cuspArc_def a b by (simp add: normalizeAngle_id)
  next
    assume "wrap360 (asc + t + 30) - wrap360 (asc + t) = - 330"
    then show ?thesis unfolding cuspArc_def a b by (simp add: normalizeAngle_under)
  qed
qed

lemma cuspArc_sum:
  assumes "0 \<le> asc" "asc < 360"
  shows "(\<Sum>i<12. cuspArc (equalCusps asc) i) = 360"
proof -
  have "(\<Sum>i<12. cuspArc (equalCusps asc) i) = (\<Sum>i<(12::nat). (30::real))"
    by (rule sum.cong) (simp_all add: cuspArc_30 [OF assms])
  then show ?thesis by simp
qed

lemma fromAsc_range:
  assumes "0 \<le> asc" "asc < 360" "0 \<le> l" "l < 360"
  shows "0 \<le> fromAsc asc l" and "fromAsc asc l < 360"
  using assms by (auto simp: fromAsc_def)

lemma houseIndex_unique:
  assumes "0 \<le> asc" "asc < 360" "0 \<le> l" "l < 360" "i < 12"
  shows "houseHolds l (equalCusps asc) i \<longleftrightarrow> i = houseIndex asc l"
proof -
  note d = fromAsc_range [OF assms(1-4)]
  have "real i * 30 \<le> fromAsc asc l \<and> fromAsc asc l < real i * 30 + 30
        \<longleftrightarrow> \<lfloor>fromAsc asc l / 30\<rfloor> = int i"
    by (simp add: floor_eq_iff)
  also have "\<dots> \<longleftrightarrow> i = houseIndex asc l"
    using d by (auto simp: houseIndex_def)
  finally show ?thesis using houseHolds_iff [OF assms] by simp
qed

lemma houseIndex_less:
  assumes "0 \<le> asc" "asc < 360" "0 \<le> l" "l < 360"
  shows "houseIndex asc l < 12"
proof -
  note d = fromAsc_range [OF assms]
  then have "\<lfloor>fromAsc asc l / 30\<rfloor> < 12" by (simp add: floor_less_iff)
  moreover have "0 \<le> \<lfloor>fromAsc asc l / 30\<rfloor>" using d by simp
  ultimately show ?thesis unfolding houseIndex_def by linarith
qed

lemma find_upt_unique:
  assumes "k < n" "P k" "\<And>j. j < n \<Longrightarrow> P j \<Longrightarrow> j = k"
  shows "find P [0..<n] = Some k"
proof -
  have "\<exists>i<length [0..<n]. P ([0..<n] ! i) \<and> k = [0..<n] ! i \<and> (\<forall>j<i. \<not> P ([0..<n] ! j))"
  proof (intro exI [of _ k] conjI allI impI)
    show "k < length [0..<n]" using assms(1) by simp
    show "P ([0..<n] ! k)" using assms(1,2) by simp
    show "k = [0..<n] ! k" using assms(1) by simp
  next
    fix j assume "j < k"
    then have "j < n" "j \<noteq> k" using assms(1) by simp_all
    then have "\<not> P j" using assms(3) [of j] by blast
    then show "\<not> P ([0..<n] ! j)" using \<open>j < n\<close> by simp
  qed
  then show ?thesis by (simp only: find_Some_iff)
qed

lemma getHouse_equalCusps:
  assumes "0 \<le> asc" "asc < 360"
  shows "getHouse lon (equalCusps asc) = houseIndex asc (normalizeAngle lon) + 1"
proof -
  let ?l = "normalizeAngle lon"
  have l: "0 \<le> ?l" "?l < 360" using normalizeAngle_range [of lon] by simp_all
  have k: "houseIndex asc ?l < 12" by (rule houseIndex_less [OF assms l])
  have "find (houseHolds ?l (equalCusps asc)) [0..<12] = Some (houseIndex asc ?l)"
  proof (rule find_upt_unique [OF k])
    show "houseHolds ?l (equalCusps asc) (houseIndex asc ?l)"
      using houseIndex_unique [OF assms l k] by simp
  next
    fix j assume "j < 12" "houseHolds ?l (equalCusps asc) j"
    then show "j = houseIndex asc ?l" using houseIndex_unique [OF assms l] by simp
  qed
  then show ?thesis by (simp add: getHouse_def)
qed

lemma house_of_longitude:
  assumes "0 \<le> asc" "asc < 360"
  shows "1 \<le> getHouse lon (equalCusps asc) \<and> getHouse lon (equalCusps asc) \<le> 12
         \<and> (\<forall>i<12. houseHolds (normalizeAngle lon) (equalCusps asc) i
                      \<longleftrightarrow> i + 1 = getHouse lon (equalCusps asc))"
proof -
  let ?l = "normalizeAngle lon"
  have l: "0 \<le> ?l" "?l < 360" using normalizeAngle_range [of lon] by simp_all
  have k: "houseIndex asc ?l < 12" by (rule houseIndex_less [OF assms l])
  have g: "getHouse lon (equalCusps asc) = houseIndex asc ?l + 1"
    by (rule getHouse_equalCusps [OF assms])
  have "\<forall>i<12. houseHolds ?l (equalCusps asc) i \<longleftrightarrow> i + 1 = houseIndex asc ?l + 1"
    using houseIndex_unique [OF assms l] by simp
  with k show ?thesis unfolding g by simp
qed

lemma calculateHouseCusps_equal:
  "calculateHouseCusps jd lat lon = equalCusps (calculateAscendant jd lat lon)"
  by (simp add: calculateHouseCusps_def equalCusps_def Let_def)

lemma calculateAscendant_range:
  "0 \<le> calculateAscendant jd lat lon \<and> calculateAscendant jd lat lon < 360"
  unfolding calculateAscendant_def Let_def by (rule normalizeAngle_range)

lemma placeBodies_ok:
  "\<exists>placed. placeBodies jd cs ps = Inr placed \<and> map fst placed = ps
     \<and> (\<forall>(planet, pos, house) \<in> set placed.
           calculatePlanetPosition (planetIdString planet) jd = Inr pos
           \<and> house = getHouse (longitude pos) cs)"
proof (induction ps)
  case Nil
  show ?case by simp
next
  case (Cons planet rest)
  from Cons obtain placed where placed: "placeBodies jd cs rest = Inr placed"
      "map fst placed = rest"
      "\<forall>(planet, pos, house) \<in> set placed.
           calculatePlanetPosition (planetIdString planet) jd = Inr pos
           \<and> house = getHouse (longitude pos) cs"
    by blast
  obtain pos where pos: "calculatePlanetPosition (planetIdString planet) jd = Inr pos"
    using calculatePlanetPosition_planet by blast
  show ?case
    using placed pos by simp
qed

text \<open>
  Claim C6. For every birth record, the chart's twelve cusps are the ascendant plus
  successive multiples of 30 degrees, normalized; the arcs from each cusp to the next add
  up to exactly 360; and every body of \<^verbatim>\<open>PLANETS\<close> is placed by \<open>getHouse\<close> in a
  house from 1 to 12 that is the one and only house whose bracket holds its longitude.
\<close>

theorem natal_chart_house_partition:
  "\<exists>houseCusps placed.
     calculateNatalChart_houses birthData = Inr (houseCusps, placed)
     \<and> houseCusps =
         map (\<lambda>i. normalizeAngle
                    (calculateAscendant (dateToJulianDay (bd_date birthData))
                       (bd_latitude birthData) (bd_longitude birthData) + real i * 30))
             [0..<12]
     \<and> (\<Sum>i<12. cuspArc houseCusps i) = 360
     \<and> map fst placed = PLANETS
     \<and> (\<forall>(planet, pos, house) \<in> set placed.
           calculatePlanetPosition (planetIdString planet) (dateToJulianDay (bd_date birthData))
             = Inr pos
           \<and> house = getHouse (longitude pos) houseCusps
           \<and> 1 \<le> house \<and> house \<le> 12
           \<and> (\<forall>i<12. houseHolds (normalizeAngle (longitude pos)) houseCusps i
                        \<longleftrightarrow> i + 1 = house))"
proof -
  define jd where "jd = dateToJulianDay (bd_date birthData)"
  define asc where "asc = calculateAscendant jd (bd_latitude birthData) (bd_longitude birthData)"
  define cs where "cs = calculateHouseCusps jd (bd_latitude birthData) (bd_longitude birthData)"
  have asc: "0 \<le> asc" "asc < 360"
    using calculateAscendant_range unfolding asc_def by simp_all
  have cs: "cs = equalCusps asc"
    unfolding cs_def asc_def by (rule calculateHouseCusps_equal)
  obtain placed where placed: "placeBodies jd cs PLANETS = Inr placed"
      "map fst placed = PLANETS"
      "\<forall>(planet, pos, house) \<in> set placed.
           calculatePlanetPosition (planetIdString planet) jd = Inr pos
           \<and> house = getHouse (longitude pos) cs"
    using placeBodies_ok [of jd cs PLANETS] by blast
  have chart: "calculateNatalChart_houses birthData = Inr (cs, placed)"
    using placed(1) by (simp add: calculateNatalChart_houses_def Let_def jd_def cs_def)
  have cusps: "cs = map (\<lambda>i. normalizeAngle (asc + real i * 30)) [0..<12]"
    unfolding cs equalCusps_def ..
  have arcs: "(\<Sum>i<12. cuspArc cs i) = 360"
    unfolding cs by (rule cuspArc_sum [OF asc])
  have each: "\<forall>(planet, pos, house) \<in> set placed.
           calculatePlanetPosition (planetIdString planet) jd = Inr pos
           \<and> house = getHouse (longitude pos) cs
           \<and> 1 \<le> house \<and> house \<le> 12
           \<and> (\<forall>i<12. houseHolds (normalizeAngle (longitude pos)) cs i \<longleftrightarrow> i + 1 = house)"
    using placed(3) house_of_longitude [OF asc] unfolding cs by fastforce
  show ?thesis
    using chart cusps arcs placed(2) each unfolding jd_def asc_def by blast
qed

text \<open>
  The chart of a birth at the reference instant on the equator: twelve cusps whose arcs add
  up to 360, and the Sun in a house from 1 to 12 whose bracket holds its longitude.
\<close>

theorem natal_chart_house_partition_witness:
  "\<exists>houseCusps placed.
     calculateNatalChart_houses bornAtNoonJ2000 = Inr (houseCusps, placed)
     \<and> length houseCusps = 12
     \<and> (\<Sum>i<12. cuspArc houseCusps i) = 360
     \<and> (\<exists>pos house. (Sun, pos, house) \<in> set placed \<and> 1 \<le> house \<and> house \<le> 12
           \<and> houseHolds (normalizeAngle (longitude pos)) houseCusps (house - 1))"
proof -
  from natal_chart_house_partition [of bornAtNoonJ2000]
  obtain houseCusps placed where h:
    "calculateNatalChart_houses bornAtNoonJ2000 = Inr (houseCusps, placed)"
    "houseCusps =
         map (\<lambda>i. normalizeAngle
                    (calculateAscendant (dateToJulianDay (bd_date bornAtNoonJ2000))
                       (bd_latitude bornAtNoonJ2000) (bd_longitude bornAtNoonJ2000)
                     + real i * 30))
             [0..<12]"
    "(\<Sum>i<12. cuspArc houseCusps i) = 360"
    "map fst placed = PLANETS"
    "\<forall>(planet, pos, house) \<in> set placed.
           calculatePlanetPosition (planetIdString planet)
             (dateToJulianDay (bd_date bornAtNoonJ2000)) = Inr pos
           \<and> house = getHouse (longitude pos) houseCusps
           \<and> 1 \<le> house \<and> house \<le> 12
           \<and> (\<forall>i<12. houseHolds (normalizeAngle (longitude pos)) houseCusps i
                        \<longleftrightarrow> i + 1 = house)"
    by blast
  have "Sun \<in> set (map fst placed)" unfolding h(4) by (simp add: PLANETS_def)
  then obtain pos house where m: "(Sun, pos, house) \<in> set placed" by auto
  with h(5) have p: "1 \<le> house" "house \<le> 12"
      "\<forall>i<12. houseHolds (normalizeAngle (longitude pos)) houseCusps i \<longleftrightarrow> i + 1 = house"
    by auto
  from p have "houseHolds (normalizeAngle (longitude pos)) houseCusps (house - 1)"
    by auto
  moreover have "length houseCusps = 12" unfolding h(2) by simp
  ultimately show ?thesis using h(1,3) m p(1,2) by blast
qed

section \<open>Aspects in both orders\<close>





text \<open>With the Moon at the very longitude of the Sun the direction does flip.\<close>

lemma detectAspect_direction_flip_example:
  "map_option applying (detectAspect sunAt100 moonAt100 conjunctionDef) = Some False
   \<and> map_option applying (detectAspect moonAt100 sunAt100 conjunctionDef) = Some True"
  by (simp add: detectAspect_def sunAt100_def moonAt100_def conjunctionDef_def
        angleDifference_def normalizeAngle_def js_rem_def js_trunc_def Let_def)

section \<open>The scale of a progression\<close>

lemma js_trunc_near: "\<bar>real_of_int (js_trunc x) - x\<bar> < 1"
  unfolding js_trunc_def by (cases "0 \<le> x") (simp_all, linarith+)

text \<open>
  Claim C3, as stated, fails: for a target date ten years of 365.25 days after the birth,
  \<open>yearsFromBirth\<close> is 10 and the progressed date lies 10 days after the birth, while
  \<open>yearsFromBirth * 365.25\<close> is 3652.5.
\<close>

theorem progression_scale_counterexample:
  "yearsFromBirth (calculateProgressedChart_scale 0 315576000000) = 10
   \<and> progressedDate (calculateProgressedChart_scale 0 315576000000) = Some 864000000
   \<and> (864000000 - 0) / 86400000 = (10 :: real)
   \<and> yearsFromBirth (calculateProgressedChart_scale 0 315576000000) * 365.25 = 3652.5"
  by (simp add: calculateProgressedChart_scale_def newDate_def js_trunc_def Let_def)

text \<open>
  Claim C3, amended. \<open>yearsFromBirth\<close> is the time from the birth to the target date in
  years of 365.25 days, and the progressed date lies \<open>yearsFromBirth\<close> days after the
  birth (one day for each year): the difference, in milliseconds, is less than one, the
  fraction that \<^verbatim>\<open>new Date\<close> drops. When that instant is beyond the range of
  \<^verbatim>\<open>Date\<close> the progressed date is invalid.
\<close>

theorem progression_scale:
  "yearsFromBirth (calculateProgressedChart_scale birthDate targetDate) * 365.25 * 86400000
     = real_of_int targetDate - real_of_int birthDate
   \<and> daysProgressed (calculateProgressedChart_scale birthDate targetDate)
     = yearsFromBirth (calculateProgressedChart_scale birthDate targetDate)
   \<and> (case progressedDate (calculateProgressedChart_scale birthDate targetDate) of
        Some progressed \<Rightarrow>
          \<bar>(real_of_int progressed - real_of_int birthDate)
            - yearsFromBirth (calculateProgressedChart_scale birthDate targetDate) * 86400000\<bar> < 1
      | None \<Rightarrow>
          8640000000000000 < \<bar>real_of_int birthDate
            + yearsFromBirth (calculateProgressedChart_scale birthDate targetDate) * 86400000\<bar>)"
proof -
  define y where
    "y = (real_of_int targetDate - real_of_int birthDate) / (365.25 * 24 * 60 * 60 * 1000)"
  define ms where "ms = real_of_int birthDate + y * 24 * 60 * 60 * 1000"
  have c: "calculateProgressedChart_scale birthDate targetDate =
     \<lparr>yearsFromBirth = y, daysProgressed = y, progressedDate = newDate ms\<rparr>"
    by (simp add: calculateProgressedChart_scale_def Let_def y_def ms_def)
  have 1: "y * 365.25 * 86400000 = real_of_int targetDate - real_of_int birthDate"
    by (simp add: y_def)
  have ms: "real_of_int birthDate + y * 86400000 = ms"
    by (simp add: ms_def)
  have 3: "(case newDate ms of
        Some progressed \<Rightarrow> \<bar>(real_of_int progressed - real_of_int birthDate) - y * 86400000\<bar> < 1
      | None \<Rightarrow> 8640000000000000 < \<bar>real_of_int birthDate + y * 86400000\<bar>)"
  proof (cases "8640000000000000 < \<bar>ms\<bar>")
    case True
    then show ?thesis unfolding ms by (simp add: newDate_def)
  next
    case False
    have "\<bar>(real_of_int (js_trunc ms) - real_of_int birthDate) - y * 86400000\<bar>
          = \<bar>real_of_int (js_trunc ms) - ms\<bar>"
      unfolding ms [symmetric] by (simp add: algebra_simps)
    with False js_trunc_near [of ms] show ?thesis by (simp add: newDate_def)
  qed
  have sel: "yearsFromBirth (calculateProgressedChart_scale birthDate targetDate) = y"
      "daysProgressed (calculateProgressedChart_scale birthDate targetDate) = y"
      "progressedDate (calculateProgressedChart_scale birthDate targetDate) = newDate ms"
    by (simp_all add: c)
  show ?thesis
    unfolding sel using 1 3 by (intro conjI) simp_all
qed

section \<open>The influence factor pipeline\<close>

lemma applyInfluenceFactors_enabled:
  assumes "enabled config"
  shows "adjustedScores (applyInfluenceFactors context config)
           = clampScores (fst (addFactors (collectFactors context config) (rawScores context, 0)))"
    and "appliedFactors (applyInfluenceFactors context config) = collectFactors context config"
    and "summary (applyInfluenceFactors context config) = summaryOf (collectFactors context config)"
  using assms by (simp_all add: applyInfluenceFactors_def Let_def split_beta)

lemma enabled_DEFAULT: "enabled DEFAULT_FACTOR_CONFIG"
  by (simp add: DEFAULT_FACTOR_CONFIG_def)

lemma enabled_extreme: "enabled extremeConfig"
  by (simp add: extremeConfig_def)

lemma disabled_disabledConfig: "\<not> enabled disabledConfig"
  by (simp add: disabledConfig_def)

text \<open>
  Claim C5. With a disabled configuration the adjusted scores are the raw scores, overall
  and in each of the five dimensions, no factor is applied, and the total adjustment is 0.
\<close>

theorem disabled_pipeline_identity:
  assumes "\<not> enabled config"
  shows "adjustedScores (applyInfluenceFactors context config) = rawScores context
     \<and> overall (adjustedScores (applyInfluenceFactors context config))
         = overall (rawScores context)
     \<and> career (dimensions (adjustedScores (applyInfluenceFactors context config)))
         = career (dimensions (rawScores context))
     \<and> relationship (dimensions (adjustedScores (applyInfluenceFactors context config)))
         = relationship (dimensions (rawScores context))
     \<and> health (dimensions (adjustedScores (applyInfluenceFactors context config)))
         = health (dimensions (rawScores context))
     \<and> finance (dimensions (adjustedScores (applyInfluenceFactors context config)))
         = finance (dimensions (rawScores context))
     \<and> spiritual (dimensions (adjustedScores (applyInfluenceFactors context config)))
         = spiritual (dimensions (rawScores context))
     \<and> appliedFactors (applyInfluenceFactors context config) = []
     \<and> totalAdjustment (applyInfluenceFactors context config) = 0"
  using assms by (simp add: applyInfluenceFactors_def)

text \<open>The default configuration, switched off, on the context \<open>dignifiedContext\<close>.\<close>

theorem disabled_pipeline_identity_witness:
  "\<not> enabled disabledConfig
   \<and> adjustedScores (applyInfluenceFactors dignifiedContext disabledConfig)
       = rawScores dignifiedContext
   \<and> appliedFactors (applyInfluenceFactors dignifiedContext disabledConfig) = []
   \<and> totalAdjustment (applyInfluenceFactors dignifiedContext disabledConfig) = 0"
  using disabled_pipeline_identity [OF disabled_disabledConfig, of dignifiedContext]
    disabled_disabledConfig
  by simp

text \<open>
  Under \<open>extremeConfig\<close>, whose custom factor asks for adjustments of 20000, the scores
  of \<open>dignifiedContext\<close> end at the bounds of the clamp.
\<close>

lemma extreme_scores_saturate:
  "adjustedScores (applyInfluenceFactors dignifiedContext extremeConfig)
     = \<lparr>overall = 100,
        dimensions = \<lparr>career = 100, relationship = 50, health = 0, finance = 55,
                      spiritual = 50\<rparr>\<rparr>"
  by (simp add: applyInfluenceFactors_def collectFactors_def dignifiedContext_def
        calculateDignityFactor_def dignityFactorOf_def DIGNITY_TABLE_def
        sunInLeo_def moonInCancer_def mercuryInGemini_def
        calculateAspectPhaseFactor_def calculateOrbDecayFactor_def
        calculateOuterPlanetFactor_def js_rem_def js_trunc_def Let_def
        calculateProfectionLordFactor_def calculateLunarPhaseFactor_def LUNAR_PHASE_EFFECTS_def
        calculatePlanetaryHourFactor_def calculatePersonalFactor_def extremeConfig_def extremeCustom_def
        clampScores_def addToDimension_def applyCustomFactors_def customEffects_def
        checkCustomCondition_def priorityOf_def)

text \<open>
  In double arithmetic a finite sum is clamped in the same way: an effect of 1000 at
  weight 1 ends at 100, effects of 1 and -0.5 move a score of 50 to 60.
\<close>

lemma adjustedOverall_double_finite:
  "adjustedOverall_double (Finite 79) (Finite 1) [Finite 1000] = Finite 100
   \<and> adjustedOverall_double (Finite 50) (Finite 1) [Finite 1, Finite (- 0.5)] = Finite 60"
  by (simp add: adjustedOverall_double_def customAdjustment_double_def toDouble_def
        overflowBound_def)

text \<open>
  Claim C1 fails on the program. With the custom weight 1 and two custom factors whose
  overall effects are the doubles \<open>2 ^ 1023\<close> and \<open>- 2 ^ 1023\<close>, each adjustment
  \<^verbatim>\<open>value * 20 * weight\<close> overflows to an infinity, the two infinities add up to
  NaN, and the clamp passes NaN on: whatever finite value the overall score had before the
  custom factors, the adjusted overall score is NaN, not a number from -100 to 100.
\<close>

theorem adjustedOverall_double_NaN:
  "adjustedOverall_double (Finite r) (Finite 1) [Finite (2 ^ 1023), Finite (- (2 ^ 1023))]
   = NaN"
  by (simp add: adjustedOverall_double_def customAdjustment_double_def toDouble_def
        overflowBound_def)

text \<open>None of the nine guards and none of the nine calls reads the retrograde weight.\<close>

lemma collectFactors_retrograde:
  "collectFactors context (config\<lparr>weights := (weights config)\<lparr>w_retrograde := r\<rparr>\<rparr>)
   = collectFactors context config"
  by (simp add: collectFactors_def)

text \<open>
  Claim C10. Two configurations that differ only in the retrograde weight are a
  configuration and its update at that weight; \<open>applyInfluenceFactors\<close> returns the same
  result for both: the same applied factors, scores, total adjustment and summary.
\<close>

theorem retrograde_weight_unused:
  "applyInfluenceFactors context (config\<lparr>weights := (weights config)\<lparr>w_retrograde := r\<rparr>\<rparr>)
   = applyInfluenceFactors context config"
proof (cases "enabled config")
  case True
  then show ?thesis
    by (simp add: applyInfluenceFactors_def collectFactors_retrograde)
next
  case False
  then show ?thesis
    by (simp add: applyInfluenceFactors_def)
qed

text \<open>
  Claim C2, as stated, fails. In the context \<open>dignifiedContext\<close> under the default
  configuration six factors are applied, all positive; the summary names the three dignity
  factors, of adjustment 2.4 each, and does not name the full moon (5) and the hour of
  Jupiter (3), the two factors of largest adjustment.
\<close>

theorem summary_not_by_magnitude_counterexample:
  "summary (applyInfluenceFactors dignifiedContext DEFAULT_FACTOR_CONFIG)
     = ''<U+6709><U+5229><U+56E0><U+5B50><U+FF1A><U+592A><U+9633><U+5C0A><U+8D35><U+5EA6><U+3001><U+6708><U+4EAE><U+5C0A><U+8D35><U+5EA6><U+3001><U+6C34><U+661F><U+5C0A><U+8D35><U+5EA6>''
   \<and> map af_name (appliedFactors (applyInfluenceFactors dignifiedContext DEFAULT_FACTOR_CONFIG))
     = [''<U+592A><U+9633><U+5C0A><U+8D35><U+5EA6>'', ''<U+6708><U+4EAE><U+5C0A><U+8D35><U+5EA6>'', ''<U+6C34><U+661F><U+5C0A><U+8D35><U+5EA6>'', ''<U+6EE1><U+6708><U+671F>'', ''<U+6728><U+661F><U+65F6>'', ''<U+6728><U+661F><U+65F6><U+589E><U+76CA>'']
   \<and> map adjustment (appliedFactors (applyInfluenceFactors dignifiedContext DEFAULT_FACTOR_CONFIG))
     = [2.4, 2.4, 2.4, 5, 3, 1.5]
   \<and> map af_name
       (spec_topPositive (appliedFactors (applyInfluenceFactors dignifiedContext DEFAULT_FACTOR_CONFIG)))
     = [''<U+6EE1><U+6708><U+671F>'', ''<U+6728><U+661F><U+65F6>'', ''<U+592A><U+9633><U+5C0A><U+8D35><U+5EA6>'']
   \<and> spec_topNegative
       (appliedFactors (applyInfluenceFactors dignifiedContext DEFAULT_FACTOR_CONFIG)) = []"
  by (simp add: applyInfluenceFactors_def collectFactors_def dignifiedContext_def
        calculateDignityFactor_def dignityFactorOf_def DIGNITY_TABLE_def
        sunInLeo_def moonInCancer_def mercuryInGemini_def
        calculateAspectPhaseFactor_def calculateOrbDecayFactor_def
        calculateOuterPlanetFactor_def js_rem_def js_trunc_def Let_def
        calculateProfectionLordFactor_def calculateLunarPhaseFactor_def LUNAR_PHASE_EFFECTS_def
        calculatePlanetaryHourFactor_def calculatePersonalFactor_def DEFAULT_FACTOR_CONFIG_def summaryOf_def spec_topPositive_def
        spec_topNegative_def)

text \<open>
  Claim C2, amended. With an enabled configuration the summary names the first three (or
  fewer) applied factors of positive adjustment and the first three (or fewer) of negative
  adjustment, in the order of the list of applied factors, which is the fixed order of the
  generators; the size of an adjustment plays no part in the selection.
\<close>

theorem summary_names_first_three:
  assumes "enabled config"
  shows "summary (applyInfluenceFactors context config) =
     (let fs = appliedFactors (applyInfluenceFactors context config);
          pos = filter (\<lambda>f. 0 < adjustment f) fs;
          neg = filter (\<lambda>f. adjustment f < 0) fs
      in if pos = [] \<and> neg = [] then ''<U+5F53><U+524D><U+65E0><U+663E><U+8457><U+5F71><U+54CD><U+56E0><U+5B50>''
         else (if pos = [] then [] else ''<U+6709><U+5229><U+56E0><U+5B50><U+FF1A>'' @ joinWith ''<U+3001>'' (map af_name (take 3 pos)))
              @ (if pos = [] \<or> neg = [] then [] else ''<U+FF1B>'')
              @ (if neg = [] then [] else ''<U+9700><U+6CE8><U+610F><U+FF1A>'' @ joinWith ''<U+3001>'' (map af_name (take 3 neg))))"
  unfolding applyInfluenceFactors_enabled(2,3) [OF assms]
  by (simp add: summaryOf_def Let_def)

text \<open>The same statement on the context \<open>dignifiedContext\<close> under \<open>extremeConfig\<close>.\<close>

theorem summary_names_first_three_witness:
  "enabled extremeConfig
   \<and> summary (applyInfluenceFactors dignifiedContext extremeConfig) =
     (let fs = appliedFactors (applyInfluenceFactors dignifiedContext extremeConfig);
          pos = filter (\<lambda>f. 0 < adjustment f) fs;
          neg = filter (\<lambda>f. adjustment f < 0) fs
      in if pos = [] \<and> neg = [] then ''<U+5F53><U+524D><U+65E0><U+663E><U+8457><U+5F71><U+54CD><U+56E0><U+5B50>''
         else (if pos = [] then [] else ''<U+6709><U+5229><U+56E0><U+5B50><U+FF1A>'' @ joinWith ''<U+3001>'' (map af_name (take 3 pos)))
              @ (if pos = [] \<or> neg = [] then [] else ''<U+FF1B>'')
              @ (if neg = [] then [] else ''<U+9700><U+6CE8><U+610F><U+FF1A>'' @ joinWith ''<U+3001>'' (map af_name (take 3 neg))))"
  using summary_names_first_three [OF enabled_extreme, of dignifiedContext] enabled_extreme
  by (intro conjI)

text \<open>
  The summary of that input, with factors of both signs: the three dignity factors, then
  the custom factor for its effect on health.
\<close>

lemma extreme_summary:
  "summary (applyInfluenceFactors dignifiedContext extremeConfig)
     = ''<U+6709><U+5229><U+56E0><U+5B50><U+FF1A><U+592A><U+9633><U+5C0A><U+8D35><U+5EA6><U+3001><U+6708><U+4EAE><U+5C0A><U+8D35><U+5EA6><U+3001><U+6C34><U+661F><U+5C0A><U+8D35><U+5EA6><U+FF1B><U+9700><U+6CE8><U+610F><U+FF1A>extreme''"
  by (simp add: applyInfluenceFactors_def collectFactors_def dignifiedContext_def
        calculateDignityFactor_def dignityFactorOf_def DIGNITY_TABLE_def
        sunInLeo_def moonInCancer_def mercuryInGemini_def
        calculateAspectPhaseFactor_def calculateOrbDecayFactor_def
        calculateOuterPlanetFactor_def js_rem_def js_trunc_def Let_def
        calculateProfectionLordFactor_def calculateLunarPhaseFactor_def LUNAR_PHASE_EFFECTS_def
        calculatePlanetaryHourFactor_def calculatePersonalFactor_def extremeConfig_def extremeCustom_def summaryOf_def
        applyCustomFactors_def customEffects_def checkCustomCondition_def priorityOf_def)

section \<open>The generators on concrete inputs\<close>

text \<open>
  The custom factors whose condition holds, each effect scaled by 20 and the weight, in
  the order of falling priority; equal priorities keep the order of the configuration.
\<close>

lemma applyCustomFactors_example:
  "map (\<lambda>f. (af_name f, adjustment f, dimension f))
       (applyCustomFactors [customA, customB, customC, customD] dignifiedContext 1)
   = [(''C'', 20, ''finance''), (''D'', 20, ''spiritual''), (''A'', 10, ''overall''),
      (''A'', - 5, ''health'')]"
  by (simp add: applyCustomFactors_def customEffects_def checkCustomCondition_def
        priorityOf_def customA_def customB_def customC_def customD_def dignifiedContext_def
        sunInLeo_def moonInCancer_def mercuryInGemini_def)

lemma calculateProfectionLordFactor_example:
  "map (\<lambda>f. (af_id f, af_name f, adjustment f, dimension f, reason f))
       (calculateProfectionLordFactor
          \<lparr>planets = [saturnInCapricorn], dominantPlanets = []\<rparr> Saturn 0.5)
   = [(''lord_dignity'', ''<U+5E74><U+5EA6><U+4E3B><U+661F><U+571F><U+661F><U+5C0A><U+8D35><U+5EA6>'', 7.5, ''overall'',
       ''<U+5E74><U+5EA6><U+4E3B><U+661F><U+571F><U+661F><U+5728><U+6469><U+7FAF><U+5EA7><U+529B><U+91CF><U+5F3A><U+52B2><U+FF0C><U+5168><U+5E74><U+8FD0><U+52BF><U+52A0><U+6301>''),
      (''lord_house_career'', ''<U+5E74><U+5EA6><U+4E3B><U+661F><U+5728>10<U+5BAB>'', 5, ''career'',
       ''<U+5E74><U+5EA6><U+4E3B><U+661F><U+571F><U+661F><U+5728>10<U+5BAB><U+FF0C><U+4E8B><U+4E1A><U+9886><U+57DF><U+53D7><U+5230><U+5173><U+6CE8>'')]"
  by (simp add: calculateProfectionLordFactor_def saturnInCapricorn_def DIGNITY_TABLE_def
        houseInfluence_def intToString_def natToString.simps digitChar_def)

lemma calculateOrbDecayFactor_example:
  "map (\<lambda>f. (af_id f, adjustment f, reason f)) (calculateOrbDecayFactor [exactTrine] 1)
   = [(''orb_exact_sun_moon'', 0, ''<U+76F8><U+4F4D><U+5BB9><U+8BB8><U+5EA6><U+4EC5> 0.5<U+00B0><U+FF0C><U+5F71><U+54CD><U+6781><U+5F3A>'')]"
  by (simp add: calculateOrbDecayFactor_def orbDecayFactorOf_def exactTrine_def toFixed1_def
        natToString.simps digitChar_def)

lemma calculateOuterPlanetFactor_example:
  "map (\<lambda>f. (af_id f, adjustment f)) (calculateOuterPlanetFactor 42 0.5)
   = [(''uranus_opposition'', - 6), (''uranus_opposition_spiritual'', 7.5)]
   \<and> map (\<lambda>f. (af_id f, adjustment f)) (calculateOuterPlanetFactor 36.5 1)
     = [(''saturn_square_1'', - 8)]"
  by (simp add: calculateOuterPlanetFactor_def js_rem_def js_trunc_def)

end
